theory Spec2Isabelle
  imports Main "HOL-Library.Word" "HOL-Library.Sublist"
begin

unbundle bit_operations_syntax

section \<open>Machine integers, error codes and constants of the headers\<close>

text \<open>
  The file \<open>fs/scfs/scfs.c\<close> is built for 32-bit ARM: \<open>int\<close>, \<open>unsigned int\<close>,
  \<open>size_t\<close> and \<open>ssize_t\<close> are 32 bits wide, \<open>loff_t\<close> and \<open>u64\<close> are 64 bits wide.
  A C \<open>int\<close> is a 32-bit word read in two's complement (\<open>sint\<close>, \<open><s\<close>); arithmetic
  wraps around as the machine's does.
\<close>

type_synonym c_int = "32 word"
type_synonym size_t = "32 word"
type_synonym u32 = "32 word"
type_synonym loff_t = "64 word"
type_synonym u64 = "64 word"

definition EINTR :: c_int where "EINTR = 4"
definition EIO :: c_int where "EIO = 5"
definition EAGAIN :: c_int where "EAGAIN = 11"
definition ENOMEM :: c_int where "ENOMEM = 12"
definition EINVAL :: c_int where "EINVAL = 22"
definition ENOSPC :: c_int where "ENOSPC = 28"
definition ERANGE :: c_int where "ERANGE = 34"

section \<open>The data of one file\<close>

text \<open>
  The structures are declared in \<open>scfs.h\<close>, outside the source file; the records
  hold the fields that \<open>scfs.c\<close> reads and writes. A pointer that the code only
  tests against \<open>NULL\<close> is a \<open>bool\<close> (\<open>True\<close>: not \<open>NULL\<close>), the bits of \<open>flags\<close> are
  one \<open>bool\<close> each, a mutex is \<open>True\<close> while it is held, and the kernel's list
  \<open>cinfo_list\<close> is the list of its entries from head to tail. The bytes of the
  cluster buffers are not part of the model, only their lengths.

  A function whose loop may run on, or that may wait for a mutex, read through a
  \<open>NULL\<close> pointer, divide by zero or fail an \<open>ASSERT\<close> (a macro of \<open>scfs.h\<close>),
  returns an \<open>option\<close>: \<open>None\<close> says that the call does not return.
\<close>

datatype comp_type = LZO | BZIP2 | ZLIB | FASTLZO

record scfs_cinfo =
  offset :: u32
  csize :: u32

record cinfo_entry =
  current_cluster_idx :: u32
  cinfo :: scfs_cinfo
  pad :: c_int

record scfs_cluster_buffer =
  c_page :: bool
  u_page :: bool
  c_buffer :: bool
  u_buffer :: bool
  original_size :: size_t

record scfs_inode_info =
  compressable :: bool
  meta_invalid :: bool
  cinfo_over_pagesize :: bool
  cinfo_array :: "scfs_cinfo list option"
  cinfo_array_size :: c_int
  cinfo_list :: "cinfo_entry list"
  cinfo_list_mutex :: bool
  lower_file :: "nat option"
  lower_file_count :: c_int
  lower_file_mutex :: bool
  cluster_buffer :: scfs_cluster_buffer
  compressed :: c_int
  cluster_size :: c_int
  comp_type :: comp_type
  upper_file_size :: loff_t
  i_size :: loff_t

record scfs_sb_info =
  comp_threshold :: c_int
  total_cluster_count :: c_int
  current_file_count :: c_int
  current_data_size :: u64

text \<open>The two static variables of \<open>scfs.c\<close> that the codec entry points keep.\<close>

record scfs_statics =
  lzo_workmem :: bool
  tfm_handles :: "comp_type \<Rightarrow> bool"

section \<open>The kernel below the file system\<close>

text \<open>
  Calls that leave the file are answered by the kernel. The record holds what the
  kernel answers (the fields ending in \<open>_ret\<close> or \<open>_ok\<close>: the \<open>i\<close>-th call of
  \<open>vfs_read\<close> or \<open>vfs_write\<close>, asked for \<open>n\<close> bytes, returns \<open>vfs_read_ret i n\<close>; a
  codec returns its status and the length it stored) and what it has been asked so
  far: \<open>io_calls\<close>, and the \<open>trace\<close> of calls, oldest first.
\<close>

datatype buffer = C_buffer | U_buffer | Cinfo_array | Comp_footer | Page_buffer

record kstatfs =
  f_bsize :: "32 word"
  f_bavail :: u64

datatype event =
    Vfs_read buffer size_t size_t loff_t
  | Vfs_write buffer size_t size_t loff_t
  | Lzo1x_1_compress size_t
  | Lzo1x_decompress_safe size_t
  | Crypto_alloc_comp comp_type
  | Crypto_comp_compress comp_type size_t
  | Crypto_comp_decompress comp_type size_t
  | Vmalloc_workmem
  | Filemap_write_and_wait
  | Privileged_open
  | Fput "nat option"
  | Truncate_setsize_upper loff_t
  | Truncate_setsize_lower loff_t
  | Notify_change loff_t
  | Statfs
  | Vmalloc size_t
  | Kmalloc size_t
  | Vfree
  | Kfree
  | Free_pages buffer
  | Kmap
  | Kunmap
  | Unlock_page
  | Clear_page_uptodate

text \<open>The calls that decompress.\<close>

fun is_decompress :: "event \<Rightarrow> bool" where
  "is_decompress (Lzo1x_decompress_safe n) = True"
| "is_decompress (Crypto_comp_decompress algo n) = True"
| "is_decompress e = False"

record kernel =
  vfs_read_ret :: "nat \<Rightarrow> size_t \<Rightarrow> c_int"
  vfs_write_ret :: "nat \<Rightarrow> size_t \<Rightarrow> c_int"
  lower_i_size :: "nat \<Rightarrow> loff_t"
  vmalloc_ok :: bool
  crypto_alloc_comp_ok :: "comp_type \<Rightarrow> bool"
  lzo1x_1_compress_ret :: "size_t \<Rightarrow> size_t \<Rightarrow> c_int \<times> size_t"
  lzo1x_decompress_safe_ret :: "size_t \<Rightarrow> size_t \<Rightarrow> c_int \<times> size_t"
  crypto_comp_compress_ret :: "comp_type \<Rightarrow> size_t \<Rightarrow> u32 \<Rightarrow> c_int \<times> u32"
  crypto_comp_decompress_ret :: "comp_type \<Rightarrow> size_t \<Rightarrow> u32 \<Rightarrow> c_int \<times> u32"
  privileged_open_ret :: "c_int \<times> nat"
  notify_change_ret :: c_int
  statfs_ret :: "c_int \<times> kstatfs"
  cinfo_alloc_ret :: bool
  lower_cinfo_records :: "scfs_cinfo list"
  io_calls :: nat
  trace :: "event list"

definition emit :: "event \<Rightarrow> kernel \<Rightarrow> kernel" where
  "emit e k = k\<lparr>trace := trace k @ [e]\<rparr>"

text \<open>
  What \<open>scfs.h\<close>, the kernel headers and the other files of the file system define
  is not part of the source file; every function that uses one of these takes them
  in this record: the constants, the macros \<open>CLUSTER_COUNT\<close>,
  \<open>PAGE_TO_CLUSTER_INDEX\<close> and \<open>PGOFF_IN_CLUSTER\<close>, the configuration switch
  \<open>SCFS_REMOVE_NO_COMPRESSED_UPPER_MEMCPY\<close>, the functions \<open>scfs_footer_read\<close> and
  \<open>scfs_initialize_file\<close>, and what writing back the dirty pages of the upper file
  (\<open>filemap_write_and_wait\<close>, which enters the file system's \<open>writepage\<close>) does to
  the file.
\<close>

record scfs_h =
  SCFS_IO_MAX_RETRY :: c_int
  SIZEOF_scfs_cinfo :: size_t
  SIZEOF_comp_footer :: size_t
  CF_SIZE :: size_t
  PAGE_SIZE :: size_t
  SCFS_CLUSTER_ALIGN_BYTE :: u32
  SCFS_REMOVE_NO_COMPRESSED_UPPER_MEMCPY :: bool
  CLUSTER_COUNT :: "scfs_inode_info \<Rightarrow> c_int"
  PAGE_TO_CLUSTER_INDEX :: "32 word \<Rightarrow> scfs_inode_info \<Rightarrow> c_int"
  PGOFF_IN_CLUSTER :: "32 word \<Rightarrow> scfs_inode_info \<Rightarrow> size_t"
  scfs_footer_read :: "scfs_inode_info \<Rightarrow> kernel \<Rightarrow> c_int \<times> scfs_inode_info \<times> kernel"
  scfs_initialize_file :: "scfs_inode_info \<Rightarrow> kernel \<Rightarrow> c_int \<times> scfs_inode_info \<times> kernel"
  writeback :: "scfs_inode_info \<Rightarrow> scfs_sb_info \<Rightarrow> kernel
                 \<Rightarrow> scfs_inode_info \<times> scfs_sb_info \<times> kernel"

section \<open>\<open>scfs_lower_read\<close> and \<open>scfs_lower_write\<close>\<close>

text \<open>
  The \<open>while (read < count)\<close> loop of \<open>scfs_lower_read\<close>. Nothing in the loop bounds
  the number of iterations on its own, so the model counts iterations down from a
  fuel: \<open>None\<close> says that the loop is still running when the fuel is used up.
  \<open>read < count\<close> compares an \<open>int\<close> with a \<open>size_t\<close>, that is, unsigned;
  \<open>ret < 0\<close> and \<open>++retry > SCFS_IO_MAX_RETRY\<close> compare signed. \<open>vfs_read\<close> moves
  \<open>*pos\<close> forward by the bytes it transferred.
\<close>

fun lower_read_loop ::
  "nat \<Rightarrow> scfs_h \<Rightarrow> buffer \<Rightarrow> size_t \<Rightarrow> kernel \<Rightarrow> loff_t \<Rightarrow> c_int \<Rightarrow> c_int
    \<Rightarrow> (c_int \<times> loff_t \<times> kernel) option" where
  "lower_read_loop 0 h buf count k pos read retry = None"
| "lower_read_loop (Suc fuel) h buf count k pos read retry =
     (if read < count then
        (let ret = vfs_read_ret k (io_calls k) (count - read);
             k' = emit (Vfs_read buf read (count - read) pos) (k\<lparr>io_calls := Suc (io_calls k)\<rparr>)
         in if ret <s 0 then
              (if ret = - EINTR \<or> ret = - EAGAIN
               then lower_read_loop fuel h buf count k' pos read retry
               else Some (ret, pos, k'))
            else
              (let pos' = pos + scast ret; read' = read + ret; retry' = retry + 1
               in if SCFS_IO_MAX_RETRY h <s retry' then Some (- EIO, pos', k')
                  else lower_read_loop fuel h buf count k' pos' read' retry'))
      else Some (read, pos, k))"

definition scfs_lower_read ::
  "nat \<Rightarrow> scfs_h \<Rightarrow> buffer \<Rightarrow> size_t \<Rightarrow> kernel \<Rightarrow> loff_t
    \<Rightarrow> (c_int \<times> loff_t \<times> kernel) option" where
  "scfs_lower_read fuel h buf count k pos = lower_read_loop fuel h buf count k pos 0 0"

fun lower_write_loop ::
  "nat \<Rightarrow> scfs_h \<Rightarrow> buffer \<Rightarrow> size_t \<Rightarrow> kernel \<Rightarrow> loff_t \<Rightarrow> c_int \<Rightarrow> c_int
    \<Rightarrow> (c_int \<times> loff_t \<times> kernel) option" where
  "lower_write_loop 0 h buf count k pos written retry = None"
| "lower_write_loop (Suc fuel) h buf count k pos written retry =
     (if written < count then
        (let ret = vfs_write_ret k (io_calls k) (count - written);
             k' = emit (Vfs_write buf written (count - written) pos)
                    (k\<lparr>io_calls := Suc (io_calls k)\<rparr>)
         in if ret <s 0 then
              (if ret = - EINTR \<or> ret = - EAGAIN
               then lower_write_loop fuel h buf count k' pos written retry
               else Some (ret, pos, k'))
            else
              (let pos' = pos + scast ret; written' = written + ret; retry' = retry + 1
               in if SCFS_IO_MAX_RETRY h <s retry' then Some (- EIO, pos', k')
                  else lower_write_loop fuel h buf count k' pos' written' retry'))
      else Some (written, pos, k))"

definition scfs_lower_write ::
  "nat \<Rightarrow> scfs_h \<Rightarrow> buffer \<Rightarrow> size_t \<Rightarrow> kernel \<Rightarrow> loff_t
    \<Rightarrow> (c_int \<times> loff_t \<times> kernel) option" where
  "scfs_lower_write fuel h buf count k pos = lower_write_loop fuel h buf count k pos 0 0"

section \<open>The codec entry points\<close>

text \<open>
  \<open>scfs_decompress\<close> and \<open>scfs_compress\<close> return the status and the value left in
  \<open>*actual\<close>, with the static variables and the kernel as they are afterwards. The
  parameter \<open>actual\<close> is what \<open>*actual\<close> holds on entry. The LZO routines store their
  length in the local \<open>tmp_len\<close>; the generic transform stores its length in
  \<open>*actual\<close>; after the \<open>switch\<close> both paths run \<open>*actual = tmp_len\<close>. The two
  \<open>return -ENOMEM\<close> leave before that assignment.
\<close>

definition scfs_decompress ::
  "comp_type \<Rightarrow> c_int \<Rightarrow> c_int \<Rightarrow> scfs_statics \<Rightarrow> kernel
    \<Rightarrow> c_int \<times> c_int \<times> scfs_statics \<times> kernel" where
  "scfs_decompress algo len actual g k =
     (let tmp_len = actual in
      case algo of
        LZO \<Rightarrow>
          (let (ret, tmp_len1) = lzo1x_decompress_safe_ret k len tmp_len;
               k1 = emit (Lzo1x_decompress_safe len) k;
               ret1 = (if ret \<noteq> 0 then - EIO else ret);
               actual1 = tmp_len1
           in (ret1, actual1, g, k1))
      | _ \<Rightarrow>
          if \<not> tfm_handles g algo \<and> \<not> crypto_alloc_comp_ok k algo
          then (- ENOMEM, actual, g\<lparr>tfm_handles := (tfm_handles g)(algo := False)\<rparr>,
                emit (Crypto_alloc_comp algo) k)
          else
            (let k1 = (if tfm_handles g algo then k else emit (Crypto_alloc_comp algo) k);
                 g1 = g\<lparr>tfm_handles := (tfm_handles g)(algo := True)\<rparr>;
                 (ret, actual1) = crypto_comp_decompress_ret k algo len actual;
                 k2 = emit (Crypto_comp_decompress algo len) k1;
                 ret1 = (if ret \<noteq> 0 then - EIO else ret);
                 actual2 = tmp_len
             in (ret1, actual2, g1, k2)))"

definition scfs_compress ::
  "comp_type \<Rightarrow> c_int \<Rightarrow> c_int \<Rightarrow> scfs_statics \<Rightarrow> kernel
    \<Rightarrow> c_int \<times> c_int \<times> scfs_statics \<times> kernel" where
  "scfs_compress algo len actual g k =
     (let tmp_len = actual in
      case algo of
        LZO \<Rightarrow>
          if \<not> lzo_workmem g \<and> \<not> vmalloc_ok k
          then (- ENOMEM, actual, g, emit Vmalloc_workmem k)
          else
            (let k1 = (if lzo_workmem g then k else emit Vmalloc_workmem k);
                 g1 = g\<lparr>lzo_workmem := True\<rparr>;
                 (ret, tmp_len1) = lzo1x_1_compress_ret k len tmp_len;
                 k2 = emit (Lzo1x_1_compress len) k1;
                 ret1 = (if ret \<noteq> 0 then - EIO else ret);
                 actual1 = tmp_len1
             in (ret1, actual1, g1, k2))
      | _ \<Rightarrow>
          if \<not> tfm_handles g algo \<and> \<not> crypto_alloc_comp_ok k algo
          then (- ENOMEM, actual, g\<lparr>tfm_handles := (tfm_handles g)(algo := False)\<rparr>,
                emit (Crypto_alloc_comp algo) k)
          else
            (let k1 = (if tfm_handles g algo then k else emit (Crypto_alloc_comp algo) k);
                 g1 = g\<lparr>tfm_handles := (tfm_handles g)(algo := True)\<rparr>;
                 (ret, actual1) = crypto_comp_compress_ret k algo len actual;
                 k2 = emit (Crypto_comp_compress algo len) k1;
                 ret1 = (if ret \<noteq> 0 then - EIO else ret);
                 actual2 = tmp_len
             in (ret1, actual2, g1, k2)))"

section \<open>The lower-file session\<close>

text \<open>
  \<open>scfs_privileged_open\<close> is answered by the kernel record: its status and the file
  it opened. A call that would wait for a mutex that is already held does not
  return: \<open>None\<close>.
\<close>

definition scfs_initialize_lower_file :: "kernel \<Rightarrow> c_int \<times> nat option \<times> kernel" where
  "scfs_initialize_lower_file k =
     (let (ret, f) = privileged_open_ret k;
          k1 = emit Privileged_open k
      in if ret \<noteq> 0 then (ret, None, k1) else (ret, Some f, k1))"

definition scfs_get_lower_file ::
  "scfs_inode_info \<Rightarrow> kernel \<Rightarrow> (c_int \<times> scfs_inode_info \<times> kernel) option" where
  "scfs_get_lower_file sii k =
     (if lower_file_mutex sii then None
      else
        (let count = lower_file_count sii + 1;
             sii1 = sii\<lparr>lower_file_mutex := True, lower_file_count := count\<rparr>
         in if count <s 1 then Some (- EINVAL, sii1\<lparr>lower_file_mutex := False\<rparr>, k)
            else if count = 1 then
              (let (ret, f, k1) = scfs_initialize_lower_file k;
                   sii2 = sii1\<lparr>lower_file := f\<rparr>;
                   sii3 = (if ret \<noteq> 0 then sii2\<lparr>lower_file_count := 0\<rparr> else sii2)
               in Some (ret, sii3\<lparr>lower_file_mutex := False\<rparr>, k1))
            else Some (0, sii1\<lparr>lower_file_mutex := False\<rparr>, k)))"

section \<open>Writing the index and the footer\<close>

text \<open>The kernel's \<open>ALIGN(x, a)\<close>, for a power of two \<open>a\<close>.\<close>

definition ALIGN :: "'a::len word \<Rightarrow> 'a word \<Rightarrow> 'a word" where
  "ALIGN x a = (x + (a - 1)) AND NOT (a - 1)"

text \<open>
  The loop of \<open>scfs_write_cinfo\<close> over the pending list. \<open>es\<close> is what is left of
  the list, \<open>buf_pos\<close> the distance of the write pointer from the start of
  \<open>u_buffer\<close>. Every entry is unlinked and freed as it is copied. A failed
  \<open>ASSERT\<close> ends the call: \<open>None\<close>.
\<close>

fun write_cinfo_loop ::
  "nat \<Rightarrow> scfs_h \<Rightarrow> cinfo_entry list \<Rightarrow> scfs_inode_info \<Rightarrow> scfs_sb_info \<Rightarrow> kernel
    \<Rightarrow> loff_t \<Rightarrow> size_t \<Rightarrow> c_int
    \<Rightarrow> (c_int \<times> loff_t \<times> scfs_inode_info \<times> scfs_sb_info \<times> kernel) option" where
  "write_cinfo_loop fuel h [] sii sbi k pos buf_pos written = Some (written, pos, sii, sbi, k)"
| "write_cinfo_loop fuel h (e # es) sii sbi k pos buf_pos written =
     (let buf_pos1 = buf_pos + SIZEOF_scfs_cinfo h;
          sii1 = sii\<lparr>cinfo_list := es\<rparr>
      in if cluster_size sii * 2 - SIZEOF_scfs_cinfo h < buf_pos1 \<or> es = [] then
           (case scfs_lower_write fuel h U_buffer buf_pos1 k pos of
              None \<Rightarrow> None
            | Some (ret, pos1, k1) \<Rightarrow>
                if ret <s 0 then Some (ret, pos1, sii1\<lparr>meta_invalid := True\<rparr>, sbi, k1)
                else write_cinfo_loop fuel h es sii1
                       (sbi\<lparr>total_cluster_count :=
                              total_cluster_count sbi - ret div SIZEOF_scfs_cinfo h\<rparr>)
                       k1 pos1 0 (written + ret))
         else write_cinfo_loop fuel h es sii1 sbi k pos buf_pos1 written)"

definition scfs_write_cinfo ::
  "nat \<Rightarrow> scfs_h \<Rightarrow> scfs_inode_info \<Rightarrow> scfs_sb_info \<Rightarrow> kernel \<Rightarrow> loff_t
    \<Rightarrow> (c_int \<times> loff_t \<times> scfs_inode_info \<times> scfs_sb_info \<times> kernel) option" where
  "scfs_write_cinfo fuel h sii sbi k pos =
     (if compressed sii = 0 then None
      else if cinfo_array_size sii \<noteq> 0 then
        (case cinfo_list sii of
           [] \<Rightarrow> None
         | e # es \<Rightarrow>
             (case scfs_lower_write fuel h Cinfo_array
                     (SIZEOF_scfs_cinfo h * current_cluster_idx e) k pos of
                None \<Rightarrow> None
              | Some (ret, pos1, k1) \<Rightarrow>
                  if ret <s 0 then Some (ret, pos1, sii\<lparr>meta_invalid := True\<rparr>, sbi, k1)
                  else write_cinfo_loop fuel h (cinfo_list sii) sii sbi k1 pos1 0 ret))
      else write_cinfo_loop fuel h (cinfo_list sii) sii sbi k pos 0 0)"

text \<open>
  \<open>scfs_write_meta\<close>, in the order of the source. \<open>buf_free_out\<close> and \<open>free_out\<close> are
  the code from the two labels to the \<open>return\<close>; \<open>write_meta_footer\<close> is the code
  from \<open>cf.footer_size += CF_SIZE\<close> to the label \<open>free_out\<close>;
  \<open>write_meta_last_cluster\<close> is the block under
  \<open>if (sii->cluster_buffer.original_size > 0)\<close>, which either jumps to \<open>free_out\<close>
  (\<open>Inl\<close>, with what the call then returns) or falls through (\<open>Inr\<close>). \<open>last\<close> points
  into the list, so an assignment through it changes the last entry of the list.
\<close>

definition buf_free_out ::
  "c_int \<Rightarrow> scfs_inode_info \<Rightarrow> scfs_sb_info \<Rightarrow> scfs_statics \<Rightarrow> kernel
    \<Rightarrow> c_int \<times> scfs_inode_info \<times> scfs_sb_info \<times> scfs_statics \<times> kernel" where
  "buf_free_out ret sii sbi g k =
     (let cb = cluster_buffer sii;
          (cb1, k1) = (if c_page cb
                       then (cb\<lparr>c_buffer := False, c_page := False\<rparr>, emit (Free_pages C_buffer) k)
                       else (cb, k));
          (cb2, sbi2, k2) = (if u_page cb1
                       then (cb1\<lparr>u_buffer := False, u_page := False\<rparr>,
                             sbi\<lparr>current_file_count := current_file_count sbi - 1\<rparr>,
                             emit (Free_pages U_buffer) k1)
                       else (cb1, sbi, k1))
      in (ret, sii\<lparr>cluster_buffer := cb2\<rparr>, sbi2, g, k2))"

definition free_out ::
  "c_int \<Rightarrow> scfs_inode_info \<Rightarrow> scfs_sb_info \<Rightarrow> scfs_statics \<Rightarrow> kernel
    \<Rightarrow> c_int \<times> scfs_inode_info \<times> scfs_sb_info \<times> scfs_statics \<times> kernel" where
  "free_out ret sii sbi g k =
     buf_free_out ret (sii\<lparr>cinfo_list := [], cinfo_list_mutex := False\<rparr>) sbi g k"

definition write_meta_footer ::
  "nat \<Rightarrow> scfs_h \<Rightarrow> c_int \<Rightarrow> loff_t \<Rightarrow> scfs_inode_info \<Rightarrow> scfs_sb_info \<Rightarrow> scfs_statics
    \<Rightarrow> kernel \<Rightarrow> (c_int \<times> scfs_inode_info \<times> scfs_sb_info \<times> scfs_statics \<times> kernel) option" where
  "write_meta_footer fuel h footer_size pos sii sbi g k =
     (let footer_size1 = footer_size + CF_SIZE h;
          sii_done = (if CF_SIZE h < footer_size1 then sii\<lparr>meta_invalid := True\<rparr>
                      else sii\<lparr>compressable := False\<rparr>)
      in case scfs_lower_write fuel h Comp_footer (CF_SIZE h) k pos of
           None \<Rightarrow> None
         | Some (ret, pos1, k1) \<Rightarrow>
             if ret <s 0 then Some (free_out ret (sii\<lparr>meta_invalid := True\<rparr>) sbi g k1)
             else if pos1 <s lower_i_size k1 (io_calls k1) then
               (let k2 = emit (Notify_change pos1) (emit (Truncate_setsize_lower pos1) k1);
                    ret2 = notify_change_ret k2
                in if ret2 \<noteq> 0 then Some (free_out ret2 (sii\<lparr>meta_invalid := True\<rparr>) sbi g k2)
                   else Some (free_out ret2 sii_done sbi g k2))
             else Some (free_out 0 sii_done sbi g k1))"

definition write_meta_last_cluster ::
  "nat \<Rightarrow> scfs_h \<Rightarrow> scfs_inode_info \<Rightarrow> scfs_sb_info \<Rightarrow> scfs_statics \<Rightarrow> kernel
    \<Rightarrow> ((c_int \<times> scfs_inode_info \<times> scfs_sb_info \<times> scfs_statics \<times> kernel)
        + (scfs_inode_info \<times> scfs_sb_info \<times> scfs_statics \<times> kernel)) option" where
  "write_meta_last_cluster fuel h sii sbi g k =
     (let cb = cluster_buffer sii;
          es = cinfo_list sii;
          last0 = last es
      in if 0 < original_size cb then
           (let (ret, size1, g1, k1) =
                  scfs_compress (comp_type sii) (original_size cb) (csize (cinfo last0)) g k;
                last1 = last0\<lparr>cinfo := (cinfo last0)\<lparr>csize := size1\<rparr>\<rparr>;
                sii1 = sii\<lparr>cinfo_list := butlast es @ [last1]\<rparr>
            in if ret \<noteq> 0 then Some (Inl (free_out ret sii1 sbi g1 k1))
               else
                 (let last2 = last1\<lparr>pad := ALIGN size1 (SCFS_CLUSTER_ALIGN_BYTE h) - size1\<rparr>;
                      pos = ucast (offset (cinfo last2));
                      keep = (size1 < original_size cb * comp_threshold sbi div 100);
                      source = (if keep then C_buffer else U_buffer);
                      last3 = (if keep then last2
                               else last2\<lparr>cinfo := (cinfo last2)\<lparr>csize := original_size cb\<rparr>\<rparr>);
                      sii2 = sii1\<lparr>cinfo_list := butlast es @ [last3],
                                 compressed := (if keep then 1 else compressed sii1)\<rparr>
                  in case scfs_lower_write fuel h source (csize (cinfo last3) + pad last3) k1 pos of
                       None \<Rightarrow> None
                     | Some (ret2, pos2, k2) \<Rightarrow>
                         if ret2 <s 0
                         then Some (Inl (free_out ret2 (sii2\<lparr>meta_invalid := True\<rparr>) sbi g1 k2))
                         else Some (Inr (sii2\<lparr>cluster_buffer := cb\<lparr>original_size := 0\<rparr>\<rparr>,
                                 sbi\<lparr>current_data_size :=
                                       current_data_size sbi - ucast (original_size cb)\<rparr>,
                                 g1, k2))))
         else Some (Inr (sii, sbi, g, k)))"

definition scfs_write_meta ::
  "nat \<Rightarrow> scfs_h \<Rightarrow> scfs_inode_info \<Rightarrow> scfs_sb_info \<Rightarrow> scfs_statics \<Rightarrow> kernel
    \<Rightarrow> (c_int \<times> scfs_inode_info \<times> scfs_sb_info \<times> scfs_statics \<times> kernel) option" where
  "scfs_write_meta fuel h sii sbi g k =
     (if cinfo_list_mutex sii then None
      else
        (let sii0 = sii\<lparr>cinfo_list_mutex := True\<rparr>
         in if cinfo_list sii0 = []
            then Some (buf_free_out 0 (sii0\<lparr>cinfo_list_mutex := False\<rparr>) sbi g k)
            else if compressable sii0 then
              (case write_meta_last_cluster fuel h sii0 sbi g k of
                 None \<Rightarrow> None
               | Some (Inl res) \<Rightarrow> Some res
               | Some (Inr (sii1, sbi1, g1, k1)) \<Rightarrow>
                   (let last1 = last (cinfo_list sii1);
                        pos = ucast (ALIGN (offset (cinfo last1) + csize (cinfo last1))
                                       (SCFS_CLUSTER_ALIGN_BYTE h))
                    in if compressed sii1 \<noteq> 0 then
                         (case scfs_write_cinfo fuel h sii1 sbi1 k1 pos of
                            None \<Rightarrow> None
                          | Some (ret, pos2, sii2, sbi2, k2) \<Rightarrow>
                              if ret <s 0 then Some (free_out ret sii2 sbi2 g1 k2)
                              else write_meta_footer fuel h ret pos2 sii2 sbi2 g1 k2)
                       else write_meta_footer fuel h 0 pos sii1 sbi1 g1 k1))
            else
              (let pos = i_size sii0;
                   sii1 = sii0\<lparr>cinfo_list := butlast (cinfo_list sii0)\<rparr>;
                   sbi1 = sbi\<lparr>total_cluster_count := total_cluster_count sbi - 1\<rparr>
               in write_meta_footer fuel h 0 pos sii1 sbi1 g k)))"

text \<open>
  \<open>atomic_dec_and_mutex_lock\<close> decrements the count and, when it reached zero,
  returns true with the mutex held. \<open>filemap_write_and_wait\<close> is traced and then
  does to the file what the header record says. The result of \<open>scfs_write_meta\<close> is
  printed and dropped.
\<close>

definition scfs_put_lower_file ::
  "nat \<Rightarrow> scfs_h \<Rightarrow> scfs_inode_info \<Rightarrow> scfs_sb_info \<Rightarrow> scfs_statics \<Rightarrow> kernel
    \<Rightarrow> (scfs_inode_info \<times> scfs_sb_info \<times> scfs_statics \<times> kernel) option" where
  "scfs_put_lower_file fuel h sii sbi g k =
     (let count = lower_file_count sii - 1;
          sii1 = sii\<lparr>lower_file_count := count\<rparr>
      in if count = 0 then
           (if lower_file_mutex sii1 then None
            else
              (let sii2 = sii1\<lparr>lower_file_mutex := True\<rparr>;
                   (sii3, sbi3, k3) = writeback h sii2 sbi (emit Filemap_write_and_wait k)
               in case scfs_write_meta fuel h sii3 sbi3 g k3 of
                    None \<Rightarrow> None
                  | Some (ret, sii4, sbi4, g4, k4) \<Rightarrow>
                      Some (sii4\<lparr>lower_file := None, lower_file_mutex := False\<rparr>, sbi4, g4,
                            emit (Fput (lower_file sii4)) k4)))
         else Some (sii1, sbi, g, k))"

section \<open>Resolving a cluster\<close>

definition scfs_cinfo_alloc ::
  "scfs_h \<Rightarrow> scfs_inode_info \<Rightarrow> size_t \<Rightarrow> kernel \<Rightarrow> bool \<times> scfs_inode_info \<times> kernel" where
  "scfs_cinfo_alloc h sii sz k =
     (if PAGE_SIZE h \<le> sz
      then (cinfo_alloc_ret k, sii\<lparr>cinfo_over_pagesize := True\<rparr>, emit (Vmalloc sz) k)
      else (cinfo_alloc_ret k, sii\<lparr>cinfo_over_pagesize := False\<rparr>, emit (Kmalloc sz) k))"

definition scfs_cinfo_free :: "scfs_inode_info \<Rightarrow> kernel \<Rightarrow> kernel" where
  "scfs_cinfo_free sii k = (if cinfo_over_pagesize sii then emit Vfree k else emit Kfree k)"

text \<open>
  \<open>scfs_reload_meta\<close>. The descriptors that the read from the lower file leaves in
  the new array are \<open>lower_cinfo_records\<close> of the kernel record. The code after the
  label \<open>out\<close> is \<open>reload_meta_out\<close>.
\<close>

definition reload_meta_out ::
  "nat \<Rightarrow> scfs_h \<Rightarrow> c_int \<Rightarrow> scfs_inode_info \<Rightarrow> scfs_sb_info \<Rightarrow> scfs_statics \<Rightarrow> kernel
    \<Rightarrow> (c_int \<times> scfs_inode_info \<times> scfs_sb_info \<times> scfs_statics \<times> kernel) option" where
  "reload_meta_out fuel h ret sii sbi g k =
     (case scfs_put_lower_file fuel h sii sbi g k of
        None \<Rightarrow> None
      | Some (sii1, sbi1, g1, k1) \<Rightarrow> Some (ret, sii1, sbi1, g1, k1))"

definition scfs_reload_meta ::
  "nat \<Rightarrow> scfs_h \<Rightarrow> scfs_inode_info \<Rightarrow> scfs_sb_info \<Rightarrow> scfs_statics \<Rightarrow> kernel
    \<Rightarrow> (c_int \<times> scfs_inode_info \<times> scfs_sb_info \<times> scfs_statics \<times> kernel) option" where
  "scfs_reload_meta fuel h sii sbi g k =
     (if \<not> meta_invalid sii then None
      else
        (let (ret, sii1, k1) = scfs_footer_read h sii k
         in if ret \<noteq> 0 then Some (ret, sii1, sbi, g, k1)
            else
              (case scfs_get_lower_file sii1 k1 of
                 None \<Rightarrow> None
               | Some (ret2, sii2, k2) \<Rightarrow>
                   if ret2 \<noteq> 0 then Some (ret2, sii2, sbi, g, k2)
                   else
                     (let k3 = (if cinfo_array sii2 \<noteq> None then scfs_cinfo_free sii2 k2 else k2)
                      in if cinfo_array_size sii2 \<noteq> 0 then
                           (let (buf, sii3, k4) = scfs_cinfo_alloc h sii2 (cinfo_array_size sii2) k3
                            in if \<not> buf then reload_meta_out fuel h (- ENOMEM) sii3 sbi g k4
                               else
                                 (let pos = lower_i_size k4 (io_calls k4)
                                              - scast (cinfo_array_size sii3)
                                              - ucast (SIZEOF_comp_footer h)
                                  in if \<not> 0 <s pos then None
                                     else
                                       (case scfs_lower_read fuel h Cinfo_array
                                               (cinfo_array_size sii3) k4 pos of
                                          None \<Rightarrow> None
                                        | Some (ret3, pos1, k5) \<Rightarrow>
                                            if ret3 <s 0 then reload_meta_out fuel h ret3 sii3 sbi g k5
                                            else reload_meta_out fuel h 0
                                                   (sii3\<lparr>cinfo_array := Some (lower_cinfo_records k5),
                                                         meta_invalid := False\<rparr>) sbi g k5)))
                         else reload_meta_out fuel h 0
                                (sii2\<lparr>cinfo_array := None, meta_invalid := False\<rparr>) sbi g k3))))"

text \<open>
  The \<open>list_for_each_safe\<close> loop of \<open>get_cluster_info\<close> over the pending list: it
  leaves with \<open>return -EINVAL\<close>, with \<open>goto out\<close> at the matching entry, or by
  reaching the end of the list. The index of an entry is unsigned, and so is the
  comparison with \<open>cluster_idx\<close>.
\<close>

datatype scan = Scan_einval | Scan_match scfs_cinfo | Scan_end

fun cinfo_list_scan :: "cinfo_entry list \<Rightarrow> c_int \<Rightarrow> scan" where
  "cinfo_list_scan [] cluster_idx = Scan_end"
| "cinfo_list_scan (e # es) cluster_idx =
     (if current_cluster_idx e < cluster_idx then Scan_einval
      else if current_cluster_idx e = cluster_idx then Scan_match (cinfo e)
      else cinfo_list_scan es cluster_idx)"

text \<open>
  \<open>get_cluster_info\<close> returns its status and the caller's descriptor \<open>target\<close>,
  which it writes only after the label \<open>out\<close>. A read through a \<open>NULL\<close> array or
  outside the array is not a return: \<open>None\<close>. The state that comes back shows
  whether \<open>cinfo_list_mutex\<close> is still held.
\<close>

definition get_cluster_info ::
  "nat \<Rightarrow> scfs_h \<Rightarrow> scfs_inode_info \<Rightarrow> scfs_sb_info \<Rightarrow> scfs_statics \<Rightarrow> kernel \<Rightarrow> c_int
    \<Rightarrow> scfs_cinfo
    \<Rightarrow> (c_int \<times> scfs_cinfo \<times> scfs_inode_info \<times> scfs_sb_info \<times> scfs_statics \<times> kernel) option"
  where
  "get_cluster_info fuel h sii sbi g k cluster_idx target =
     (if \<not> compressable sii then None
      else
        (case (if meta_invalid sii then scfs_reload_meta fuel h sii sbi g k
               else Some (0, sii, sbi, g, k)) of
           None \<Rightarrow> None
         | Some (ret, sii1, sbi1, g1, k1) \<Rightarrow>
             if ret \<noteq> 0 then Some (ret, target, sii1, sbi1, g1, k1)
             else if CLUSTER_COUNT h sii1 <s cluster_idx + 1
             then Some (- EINVAL, target, sii1, sbi1, g1, k1)
             else if cluster_idx * SIZEOF_scfs_cinfo h < cinfo_array_size sii1 then
               (case cinfo_array sii1 of
                  None \<Rightarrow> None
                | Some arr \<Rightarrow>
                    if 0 \<le> sint cluster_idx \<and> nat (sint cluster_idx) < length arr
                    then (let c = arr ! nat (sint cluster_idx)
                          in Some (ret, target\<lparr>offset := offset c, csize := csize c\<rparr>,
                                   sii1, sbi1, g1, k1))
                    else None)
             else if cinfo_list_mutex sii1 then None
             else
               (let sii2 = sii1\<lparr>cinfo_list_mutex := True\<rparr>
                in if cinfo_list sii2 = [] then Some (- EINVAL, target, sii2, sbi1, g1, k1)
                   else
                     (case cinfo_list_scan (cinfo_list sii2) cluster_idx of
                        Scan_einval \<Rightarrow> Some (- EINVAL, target, sii2, sbi1, g1, k1)
                      | Scan_match c \<Rightarrow>
                          Some (ret, target\<lparr>offset := offset c, csize := csize c\<rparr>,
                                sii2\<lparr>cinfo_list_mutex := False\<rparr>, sbi1, g1, k1)
                      | Scan_end \<Rightarrow>
                          Some (- EIO, target, sii2\<lparr>cinfo_list_mutex := False\<rparr>, sbi1, g1, k1)))))"

section \<open>Reading a cluster\<close>

text \<open>
  \<open>scfs_read_cluster\<close> for the page with index \<open>page_index\<close>. \<open>file_lower\<close> is what
  \<open>scfs_lower_file(file)\<close> gives, \<open>compr\<close> what \<open>*compressed\<close> holds on entry;
  the call returns its status and \<open>*compressed\<close>. \<open>do_div\<close> divides the 64-bit size
  by the 32-bit cluster size and returns the remainder; with a cluster size of 0
  the division traps (\<open>None\<close>).

  \<open>read_cluster_locate\<close> is the \<open>if (IS_COMPRESSABLE(sii)) ... else ...\<close> statement:
  it leaves the function (\<open>Inl\<close>) or gives \<open>*compressed\<close>, \<open>size\<close> and \<open>pos\<close> (\<open>Inr\<close>).
  \<open>read_cluster_transfer\<close> is the code after it.
\<close>

definition read_cluster_locate ::
  "nat \<Rightarrow> scfs_h \<Rightarrow> c_int \<Rightarrow> c_int \<Rightarrow> c_int \<Rightarrow> loff_t \<Rightarrow> scfs_inode_info \<Rightarrow> scfs_sb_info
    \<Rightarrow> scfs_statics \<Rightarrow> kernel
    \<Rightarrow> ((c_int \<times> c_int \<times> scfs_inode_info \<times> scfs_sb_info \<times> scfs_statics \<times> kernel)
        + (c_int \<times> c_int \<times> loff_t \<times> scfs_cinfo \<times> scfs_inode_info \<times> scfs_sb_info
             \<times> scfs_statics \<times> kernel)) option" where
  "read_cluster_locate fuel h compr cluster_idx last_cluster_idx left sii sbi g k =
     (if compressable sii then
        (case get_cluster_info fuel h sii sbi g k cluster_idx \<lparr>offset = 0, csize = 0\<rparr> of
           None \<Rightarrow> None
         | Some (ret, ci, sii1, sbi1, g1, k1) \<Rightarrow>
             if ret \<noteq> 0 then Some (Inl (ret, compr, sii1, sbi1, g1, k1))
             else if csize ci = 0 \<or> cluster_size sii1 < csize ci
             then Some (Inl (- EINVAL, compr, sii1, sbi1, g1, k1))
             else
               (let compr1 =
                      (if csize ci = cluster_size sii1 then 0
                       else if cluster_idx = last_cluster_idx \<and> left = ucast (csize ci)
                       then 0 else 1)
                in Some (Inr (compr1, csize ci, ucast (offset ci), ci,
                              sii1, sbi1, g1, k1))))
      else
        (let size0 = (if cluster_idx = last_cluster_idx \<and> left \<noteq> 0 then ucast left
                      else cluster_size sii);
             pos = scast cluster_idx * scast (cluster_size sii)
         in Some (Inr (0, size0, pos, \<lparr>offset = 0, csize = 0\<rparr>, sii, sbi, g, k))))"

definition read_cluster_transfer ::
  "nat \<Rightarrow> scfs_h \<Rightarrow> nat option \<Rightarrow> 32 word \<Rightarrow> c_int \<Rightarrow> c_int \<Rightarrow> loff_t \<Rightarrow> scfs_inode_info
    \<Rightarrow> scfs_sb_info \<Rightarrow> scfs_statics \<Rightarrow> kernel
    \<Rightarrow> (c_int \<times> c_int \<times> scfs_inode_info \<times> scfs_sb_info \<times> scfs_statics \<times> kernel) option"
  where
  "read_cluster_transfer fuel h file_lower page_index compr size0 pos0 sii sbi g k =
     (if file_lower = None then Some (- EINVAL, compr, sii, sbi, g, k)
      else
        (let direct = (SCFS_REMOVE_NO_COMPRESSED_UPPER_MEMCPY h \<and> compr = 0);
             shift = PGOFF_IN_CLUSTER h page_index sii * PAGE_SIZE h;
             size1 = (if direct
                      then (if PAGE_SIZE h < size0 - shift then PAGE_SIZE h else size0 - shift)
                      else size0);
             pos1 = (if direct then pos0 + ucast shift else pos0);
             buf_c = (if direct then Page_buffer else C_buffer);
             k1 = (if direct then emit Kmap k else k)
         in case scfs_lower_read fuel h buf_c size1 k1 pos1 of
              None \<Rightarrow> None
            | Some (ret, pos2, k2) \<Rightarrow>
                (let k3 = (if direct then emit Kunmap k2 else k2)
                 in if ret <s 0 then Some (ret, compr, sii, sbi, g, emit Unlock_page k3)
                    else if compr \<noteq> 0 then
                      (let (ret1, actual, g1, k4) =
                             scfs_decompress (comp_type sii) size1 (cluster_size sii) g k3
                       in if ret1 \<noteq> 0
                          then Some (ret1, compr, sii, sbi, g1,
                                     emit Unlock_page (emit Clear_page_uptodate k4))
                          else Some (ret1, compr, sii, sbi, g1, k4))
                    else Some (0, compr, sii, sbi, g, k3))))"

definition scfs_read_cluster ::
  "nat \<Rightarrow> scfs_h \<Rightarrow> nat option \<Rightarrow> 32 word \<Rightarrow> c_int \<Rightarrow> scfs_inode_info \<Rightarrow> scfs_sb_info
    \<Rightarrow> scfs_statics \<Rightarrow> kernel
    \<Rightarrow> (c_int \<times> c_int \<times> scfs_inode_info \<times> scfs_sb_info \<times> scfs_statics \<times> kernel) option"
  where
  "scfs_read_cluster fuel h file_lower page_index compr sii sbi g k =
     (if i_size sii = 0 then Some (0, compr, sii, sbi, g, emit Unlock_page k)
      else if i_size sii \<le>s ucast (page_index * PAGE_SIZE h)
      then Some (0, compr, sii, sbi, g, emit Unlock_page k)
      else if cluster_size sii = 0 then None
      else
        (let tmp0 = i_size sii div ucast (cluster_size sii);
             left = i_size sii mod ucast (cluster_size sii);
             tmp = (if left \<noteq> 0 then tmp0 + 1 else tmp0);
             last_cluster_idx = ucast (tmp - 1);
             cluster_idx = PAGE_TO_CLUSTER_INDEX h page_index sii
         in if last_cluster_idx <s cluster_idx then Some (- ERANGE, compr, sii, sbi, g, k)
            else
              (case read_cluster_locate fuel h compr cluster_idx last_cluster_idx left
                      sii sbi g k of
                 None \<Rightarrow> None
               | Some (Inl res) \<Rightarrow> Some res
               | Some (Inr (compr1, size0, pos0, ci, sii1, sbi1, g1, k1)) \<Rightarrow>
                   read_cluster_transfer fuel h file_lower page_index compr1 size0 pos0
                     sii1 sbi1 g1 k1)))"

section \<open>Truncating to length zero\<close>

text \<open>
  \<open>scfs_truncate\<close>. \<open>truncate_setsize\<close> sets the size of the upper inode;
  \<open>notify_change\<close> on the lower dentry is answered by the kernel record;
  \<open>scfs_initialize_file\<close> comes from the header record.
\<close>

definition scfs_truncate ::
  "scfs_h \<Rightarrow> scfs_inode_info \<Rightarrow> kernel \<Rightarrow> loff_t
    \<Rightarrow> (c_int \<times> scfs_inode_info \<times> kernel) option" where
  "scfs_truncate h sii k sz =
     (if sz \<noteq> 0 then Some (- EINVAL, sii, k)
      else
        (let sii1 = sii\<lparr>i_size := sz\<rparr>;
             k1 = emit (Truncate_setsize_upper sz) k
         in if cinfo_list_mutex sii1 then None
            else
              (let sii2 = sii1\<lparr>cinfo_list := []\<rparr>;
                   k2 = emit (Notify_change sz) k1;
                   ret = notify_change_ret k2
               in if ret \<noteq> 0 then Some (ret, sii2, k2)
                  else
                    (let (ret1, sii3, k3) = scfs_initialize_file h sii2 k2
                     in if ret1 \<noteq> 0 then Some (ret1, sii3\<lparr>meta_invalid := True\<rparr>, k3)
                        else
                          (let k4 = (if cinfo_array sii3 \<noteq> None then scfs_cinfo_free sii3 k3
                                     else k3);
                               sii4 = sii3\<lparr>cinfo_array := None,
                                          cinfo_array_size := 0,
                                          upper_file_size := 0,
                                          cluster_buffer :=
                                            (cluster_buffer sii3)\<lparr>original_size := 0\<rparr>,
                                          meta_invalid := False\<rparr>
                           in Some (ret1, sii4, k4))))))"

section \<open>Space admission\<close>

text \<open>
  \<open>scfs_check_space\<close>. The sum is formed in 64 bits, because
  \<open>current_data_size\<close> is an \<open>atomic64_t\<close>, and stored in the \<open>size_t\<close> variable
  \<open>min_space\<close>. \<open>buf.f_bavail * PAGE_SIZE\<close> is a 64-bit product. The call does
  nothing to the file system but ask \<open>statfs\<close>.
\<close>

definition min_space :: "scfs_h \<Rightarrow> scfs_sb_info \<Rightarrow> size_t" where
  "min_space h sbi =
     ucast ((ucast (total_cluster_count sbi * SIZEOF_scfs_cinfo h
                    + current_file_count sbi * SIZEOF_comp_footer h) :: u64)
            + current_data_size sbi + ucast (PAGE_SIZE h))"

definition scfs_check_space :: "scfs_h \<Rightarrow> scfs_sb_info \<Rightarrow> kernel \<Rightarrow> c_int \<times> kernel" where
  "scfs_check_space h sbi k =
     (let (ret, buf) = statfs_ret k;
          k1 = emit Statfs k
      in if ret \<noteq> 0 then (ret, k1)
         else if f_bavail buf * ucast (PAGE_SIZE h) < ucast (min_space h sbi) then (- ENOSPC, k1)
         else (ret, k1))"

section \<open>A file system to run the functions on\<close>

text \<open>
  Values for the worked examples: a header record with 4096-byte pages, 8-byte
  descriptors, a 24-byte footer and at most 10 retries; a kernel that transfers
  every byte it is asked for, whose codecs succeed, and that has been asked nothing
  yet; a file with 16384-byte clusters and nothing written; a superblock with a
  threshold of 80 percent.
\<close>

definition h0 :: scfs_h where
  "h0 = \<lparr>SCFS_IO_MAX_RETRY = 10,
          SIZEOF_scfs_cinfo = 8,
          SIZEOF_comp_footer = 24,
          CF_SIZE = 24,
          PAGE_SIZE = 4096,
          SCFS_CLUSTER_ALIGN_BYTE = 4,
          SCFS_REMOVE_NO_COMPRESSED_UPPER_MEMCPY = False,
          CLUSTER_COUNT = (\<lambda>sii. ucast ((i_size sii + ucast (cluster_size sii) - 1)
                                          div ucast (cluster_size sii))),
          PAGE_TO_CLUSTER_INDEX = (\<lambda>idx sii. idx div (cluster_size sii div 4096)),
          PGOFF_IN_CLUSTER = (\<lambda>idx sii. idx mod (cluster_size sii div 4096)),
          scfs_footer_read = (\<lambda>sii k. (0, sii, k)),
          scfs_initialize_file = (\<lambda>sii k. (0, sii, k)),
          writeback = (\<lambda>sii sbi k. (sii, sbi, k))\<rparr>"

definition k0 :: kernel where
  "k0 = \<lparr>vfs_read_ret = (\<lambda>i n. n),
          vfs_write_ret = (\<lambda>i n. n),
          lower_i_size = (\<lambda>i. 0),
          vmalloc_ok = True,
          crypto_alloc_comp_ok = (\<lambda>algo. True),
          lzo1x_1_compress_ret = (\<lambda>len cap. (0, len div 2)),
          lzo1x_decompress_safe_ret = (\<lambda>len cap. (0, cap)),
          crypto_comp_compress_ret = (\<lambda>algo len cap. (0, len div 2)),
          crypto_comp_decompress_ret = (\<lambda>algo len cap. (0, cap)),
          privileged_open_ret = (0, 1),
          notify_change_ret = 0,
          statfs_ret = (0, \<lparr>f_bsize = 4096, f_bavail = 1000\<rparr>),
          cinfo_alloc_ret = True,
          lower_cinfo_records = [],
          io_calls = 0,
          trace = []\<rparr>"

definition sii0 :: scfs_inode_info where
  "sii0 = \<lparr>compressable = True,
            meta_invalid = False,
            cinfo_over_pagesize = False,
            cinfo_array = None,
            cinfo_array_size = 0,
            cinfo_list = [],
            cinfo_list_mutex = False,
            lower_file = None,
            lower_file_count = 0,
            lower_file_mutex = False,
            cluster_buffer = \<lparr>c_page = True, u_page = True, c_buffer = True, u_buffer = True,
                               original_size = 0\<rparr>,
            compressed = 0,
            cluster_size = 16384,
            comp_type = LZO,
            upper_file_size = 0,
            i_size = 0\<rparr>"

definition sbi0 :: scfs_sb_info where
  "sbi0 = \<lparr>comp_threshold = 80,
            total_cluster_count = 0,
            current_file_count = 1,
            current_data_size = 0\<rparr>"

definition g0 :: scfs_statics where
  "g0 = \<lparr>lzo_workmem = False, tfm_handles = (\<lambda>algo. False)\<rparr>"

text \<open>
  A file of 20000 bytes in two clusters, both committed; the second descriptor has
  the size \<open>sz\<close>.
\<close>

definition committed_file :: "u32 \<Rightarrow> scfs_inode_info" where
  "committed_file sz =
     sii0\<lparr>i_size := 20000,
          cinfo_array := Some [\<lparr>offset = 0, csize = 16384\<rparr>, \<lparr>offset = 16384, csize = sz\<rparr>],
          cinfo_array_size := 16, lower_file := Some 1, lower_file_count := 1\<rparr>"

definition entry :: "u32 \<Rightarrow> u32 \<Rightarrow> u32 \<Rightarrow> cinfo_entry" where
  "entry idx off sz = \<lparr>current_cluster_idx = idx, cinfo = \<lparr>offset = off, csize = sz\<rparr>, pad = 0\<rparr>"

section \<open>Properties of the lower-file transfer loops\<close>

lemma word_partial_sum_le:
  fixes a b c :: "'a::len word"
  shows "a < c \<Longrightarrow> b \<le> c - a \<Longrightarrow> a + b \<le> c"
  by unat_arith

text \<open>
  A transient result leaves \<open>read\<close> and \<open>retry\<close> as they were: the \<open>continue\<close> jumps
  back to the loop test, past \<open>++retry\<close>. While the kernel answers every call with
  \<open>-EINTR\<close> (or with \<open>-EAGAIN\<close>), the loop therefore runs on, whatever the fuel.
\<close>

lemma lower_read_loop_hungry:
  assumes "read < count"
    and "\<forall>i n. vfs_read_ret k i n = - EINTR \<or> vfs_read_ret k i n = - EAGAIN"
  shows "lower_read_loop fuel h buf count k pos read retry = None"
  using assms
proof (induction fuel arbitrary: k)
  case 0
  show ?case by simp
next
  case (Suc fuel)
  have neg: "(- EINTR :: c_int) <s 0" "(- EAGAIN :: c_int) <s 0"
    by (simp_all add: EINTR_def EAGAIN_def word_sless_alt)
  define k1 where
    "k1 = emit (Vfs_read buf read (count - read) pos) (k\<lparr>io_calls := Suc (io_calls k)\<rparr>)"
  have "\<forall>i n. vfs_read_ret k1 i n = - EINTR \<or> vfs_read_ret k1 i n = - EAGAIN"
    using Suc.prems(2) by (simp add: k1_def emit_def)
  with Suc.IH [of k1] Suc.prems(1)
  have "lower_read_loop fuel h buf count k1 pos read retry = None" by simp
  moreover have "vfs_read_ret k (io_calls k) (count - read) = - EINTR
      \<or> vfs_read_ret k (io_calls k) (count - read) = - EAGAIN"
    using Suc.prems(2) by simp
  ultimately show ?case using Suc.prems(1) neg
    by (auto simp add: Let_def k1_def)
qed

lemma lower_write_loop_hungry:
  assumes "written < count"
    and "\<forall>i n. vfs_write_ret k i n = - EINTR \<or> vfs_write_ret k i n = - EAGAIN"
  shows "lower_write_loop fuel h buf count k pos written retry = None"
  using assms
proof (induction fuel arbitrary: k)
  case 0
  show ?case by simp
next
  case (Suc fuel)
  have neg: "(- EINTR :: c_int) <s 0" "(- EAGAIN :: c_int) <s 0"
    by (simp_all add: EINTR_def EAGAIN_def word_sless_alt)
  define k1 where
    "k1 = emit (Vfs_write buf written (count - written) pos) (k\<lparr>io_calls := Suc (io_calls k)\<rparr>)"
  have "\<forall>i n. vfs_write_ret k1 i n = - EINTR \<or> vfs_write_ret k1 i n = - EAGAIN"
    using Suc.prems(2) by (simp add: k1_def emit_def)
  with Suc.IH [of k1] Suc.prems(1)
  have "lower_write_loop fuel h buf count k1 pos written retry = None" by simp
  moreover have "vfs_write_ret k (io_calls k) (count - written) = - EINTR
      \<or> vfs_write_ret k (io_calls k) (count - written) = - EAGAIN"
    using Suc.prems(2) by simp
  ultimately show ?case using Suc.prems(1) neg
    by (auto simp add: Let_def k1_def)
qed

text \<open>
  What the loops do guarantee: when the kernel never transfers more than it was asked
  for, a call that returns gives the full count or a negative error, never a short
  count.
\<close>

lemma lower_read_loop_result:
  assumes "\<forall>i n. vfs_read_ret k i n <s 0 \<or> vfs_read_ret k i n \<le> n"
    and "read \<le> count"
    and "lower_read_loop fuel h buf count k pos read retry = Some (r, pos', k')"
  shows "r = count \<or> r <s 0"
  using assms
proof (induction fuel arbitrary: k pos read retry)
  case 0
  then show ?case by simp
next
  case (Suc fuel)
  have eio: "(- EIO :: c_int) <s 0" by (simp add: EIO_def word_sless_alt)
  show ?case
  proof (cases "read < count")
    case False
    with Suc.prems show ?thesis by simp
  next
    case True
    define ret where "ret = vfs_read_ret k (io_calls k) (count - read)"
    define k1 where
    "k1 = emit (Vfs_read buf read (count - read) pos) (k\<lparr>io_calls := Suc (io_calls k)\<rparr>)"
    have k1: "\<forall>i n. vfs_read_ret k1 i n <s 0 \<or> vfs_read_ret k1 i n \<le> n"
      using Suc.prems(1) by (simp add: k1_def emit_def)
    show ?thesis
    proof (cases "ret <s 0")
      case neg: True
      show ?thesis
      proof (cases "ret = - EINTR \<or> ret = - EAGAIN")
        case True
        with neg \<open>read < count\<close> Suc.prems(3)
        have "lower_read_loop fuel h buf count k1 pos read retry = Some (r, pos', k')"
          by (simp add: Let_def ret_def k1_def)
        from Suc.IH [OF k1 Suc.prems(2) this] show ?thesis .
      next
        case False
        with neg \<open>read < count\<close> Suc.prems(3) show ?thesis
          by (auto simp add: Let_def ret_def k1_def)
      qed
    next
      case nonneg: False
      then have "ret \<le> count - read"
        using Suc.prems(1) by (auto simp add: ret_def)
      with \<open>read < count\<close> have le: "read + ret \<le> count"
        by (rule word_partial_sum_le)
      show ?thesis
      proof (cases "SCFS_IO_MAX_RETRY h <s retry + 1")
        case True
        with nonneg \<open>read < count\<close> Suc.prems(3) eio show ?thesis
          by (auto simp add: Let_def ret_def k1_def)
      next
        case False
        with nonneg \<open>read < count\<close> Suc.prems(3)
        have "lower_read_loop fuel h buf count k1 (pos + scast ret) (read + ret) (retry + 1)
                = Some (r, pos', k')"
          by (simp add: Let_def ret_def k1_def)
        from Suc.IH [OF k1 le this] show ?thesis .
      qed
    qed
  qed
qed

lemma lower_write_loop_result:
  assumes "\<forall>i n. vfs_write_ret k i n <s 0 \<or> vfs_write_ret k i n \<le> n"
    and "written \<le> count"
    and "lower_write_loop fuel h buf count k pos written retry = Some (r, pos', k')"
  shows "r = count \<or> r <s 0"
  using assms
proof (induction fuel arbitrary: k pos written retry)
  case 0
  then show ?case by simp
next
  case (Suc fuel)
  have eio: "(- EIO :: c_int) <s 0" by (simp add: EIO_def word_sless_alt)
  show ?case
  proof (cases "written < count")
    case False
    with Suc.prems show ?thesis by simp
  next
    case True
    define ret where "ret = vfs_write_ret k (io_calls k) (count - written)"
    define k1 where
    "k1 = emit (Vfs_write buf written (count - written) pos) (k\<lparr>io_calls := Suc (io_calls k)\<rparr>)"
    have k1: "\<forall>i n. vfs_write_ret k1 i n <s 0 \<or> vfs_write_ret k1 i n \<le> n"
      using Suc.prems(1) by (simp add: k1_def emit_def)
    show ?thesis
    proof (cases "ret <s 0")
      case neg: True
      show ?thesis
      proof (cases "ret = - EINTR \<or> ret = - EAGAIN")
        case True
        with neg \<open>written < count\<close> Suc.prems(3)
        have "lower_write_loop fuel h buf count k1 pos written retry = Some (r, pos', k')"
          by (simp add: Let_def ret_def k1_def)
        from Suc.IH [OF k1 Suc.prems(2) this] show ?thesis .
      next
        case False
        with neg \<open>written < count\<close> Suc.prems(3) show ?thesis
          by (auto simp add: Let_def ret_def k1_def)
      qed
    next
      case nonneg: False
      then have "ret \<le> count - written"
        using Suc.prems(1) by (auto simp add: ret_def)
      with \<open>written < count\<close> have le: "written + ret \<le> count"
        by (rule word_partial_sum_le)
      show ?thesis
      proof (cases "SCFS_IO_MAX_RETRY h <s retry + 1")
        case True
        with nonneg \<open>written < count\<close> Suc.prems(3) eio show ?thesis
          by (auto simp add: Let_def ret_def k1_def)
      next
        case False
        with nonneg \<open>written < count\<close> Suc.prems(3)
        have "lower_write_loop fuel h buf count k1 (pos + scast ret) (written + ret) (retry + 1)
                = Some (r, pos', k')"
          by (simp add: Let_def ret_def k1_def)
        from Suc.IH [OF k1 le this] show ?thesis .
      qed
    qed
  qed
qed

text \<open>
  Claim C5. \<open>scfs_lower_read\<close> and \<open>scfs_lower_write\<close> are to retry a transient
  result (\<open>-EINTR\<close>, \<open>-EAGAIN\<close>) only up to \<open>SCFS_IO_MAX_RETRY\<close> times and then fail
  with \<open>-EIO\<close>, so that neither loops without bound. The code does not: asked for
  4096 bytes with a ceiling of 10 retries, against a kernel that answers every
  \<open>vfs_read\<close> with \<open>-EINTR\<close> and every \<open>vfs_write\<close> with \<open>-EAGAIN\<close>, neither call
  has returned after any number of iterations.
\<close>

theorem lower_io_transient_unbounded:
  "(\<forall>fuel. scfs_lower_read fuel (h\<lparr>SCFS_IO_MAX_RETRY := 10\<rparr>) U_buffer 4096
       (k\<lparr>vfs_read_ret := (\<lambda>i n. - EINTR)\<rparr>) 0 = None) \<and>
   (\<forall>fuel. scfs_lower_write fuel (h\<lparr>SCFS_IO_MAX_RETRY := 10\<rparr>) U_buffer 4096
       (k\<lparr>vfs_write_ret := (\<lambda>i n. - EAGAIN)\<rparr>) 0 = None)"
  by (simp add: scfs_lower_read_def scfs_lower_write_def
      lower_read_loop_hungry lower_write_loop_hungry)

section \<open>The codec entry points on the generic transform\<close>

text \<open>
  On the LZO path the length that the codec stored is what comes back in \<open>*actual\<close>,
  and a failure of either decompressor comes back as \<open>-EIO\<close>.
\<close>

lemma scfs_compress_LZO_actual:
  assumes "lzo_workmem g \<or> vmalloc_ok k"
  shows "fst (snd (scfs_compress LZO len actual g k)) = snd (lzo1x_1_compress_ret k len actual)"
  using assms by (auto simp add: scfs_compress_def Let_def split: prod.splits)

lemma scfs_decompress_LZO_actual:
  "fst (snd (scfs_decompress LZO len actual g k)) = snd (lzo1x_decompress_safe_ret k len actual)"
  by (simp add: scfs_decompress_def Let_def split: prod.splits)

lemma scfs_decompress_failure_EIO:
  assumes "fst (lzo1x_decompress_safe_ret k len actual) \<noteq> 0"
    and "fst (crypto_comp_decompress_ret k algo len actual) \<noteq> 0"
    and "tfm_handles g algo \<or> crypto_alloc_comp_ok k algo"
  shows "fst (scfs_decompress algo len actual g k) = - EIO"
  using assms by (cases algo) (auto simp add: scfs_decompress_def Let_def split: prod.splits)

text \<open>
  Claim C4. For every supported algorithm \<open>scfs_compress\<close> and \<open>scfs_decompress\<close> are
  to return through \<open>*actual\<close> the number of bytes that the codec produced. For
  ZLIB the code does not: with \<open>*actual = 16384\<close> on entry and a transform that
  succeeds and stores 100 compressed bytes (4096 decompressed bytes), both calls
  return 0 and leave \<open>*actual = 16384\<close>.
\<close>

theorem codec_generic_actual_not_returned:
  "scfs_compress ZLIB 4096 16384 g0
      (k0\<lparr>crypto_comp_compress_ret := (\<lambda>algo len cap. (0, 100))\<rparr>)
    = (0, 16384, g0\<lparr>tfm_handles := (tfm_handles g0)(ZLIB := True)\<rparr>,
       emit (Crypto_comp_compress ZLIB 4096) (emit (Crypto_alloc_comp ZLIB)
         (k0\<lparr>crypto_comp_compress_ret := (\<lambda>algo len cap. (0, 100))\<rparr>)))
  \<and> scfs_decompress ZLIB 100 16384 g0
      (k0\<lparr>crypto_comp_decompress_ret := (\<lambda>algo len cap. (0, 4096))\<rparr>)
    = (0, 16384, g0\<lparr>tfm_handles := (tfm_handles g0)(ZLIB := True)\<rparr>,
       emit (Crypto_comp_decompress ZLIB 100) (emit (Crypto_alloc_comp ZLIB)
         (k0\<lparr>crypto_comp_decompress_ret := (\<lambda>algo len cap. (0, 4096))\<rparr>)))"
  by (simp add: scfs_compress_def scfs_decompress_def g0_def k0_def)

section \<open>Resolving a cluster from the pending list\<close>

text \<open>
  Claim C1. A cluster index behind the committed array is to be looked up in the
  pending list, and a matching entry is to be copied to the caller with status 0;
  \<open>-EINVAL\<close> is for an empty list and for an entry whose index exceeds the wanted
  one. The code returns \<open>-EINVAL\<close> at the first entry whose index is below the wanted
  one: a file of two clusters with the pending entries 0 and 1 and no committed
  array, asked for cluster 1, answers \<open>-EINVAL\<close> and leaves the caller's descriptor
  as it was, although the second entry matches.
\<close>

theorem get_cluster_info_second_pending_rejected:
  "get_cluster_info fuel h0
     (sii0\<lparr>cinfo_list := [entry 0 0 5000, entry 1 5000 6000], i_size := 32768\<rparr>)
     sbi0 g0 k0 1 \<lparr>offset = 7, csize = 7\<rparr>
   = Some (- EINVAL, \<lparr>offset = 7, csize = 7\<rparr>,
           sii0\<lparr>cinfo_list := [entry 0 0 5000, entry 1 5000 6000], i_size := 32768,
                cinfo_list_mutex := True\<rparr>, sbi0, g0, k0)"
  by (simp add: get_cluster_info_def sii0_def h0_def entry_def word_sless_alt)

text \<open>
  Claim C10. Every path of \<open>get_cluster_info\<close> that takes \<open>cinfo_list_mutex\<close> is to
  release it before it returns. The two \<open>return -EINVAL\<close> inside the locked region do
  not: with an empty pending list, and with a pending list whose first entry is
  below the wanted index, the call returns with the mutex held.
\<close>

theorem get_cluster_info_returns_locked:
  "get_cluster_info fuel h0 (sii0\<lparr>i_size := 16384\<rparr>) sbi0 g0 k0 0 target
     = Some (- EINVAL, target, sii0\<lparr>i_size := 16384, cinfo_list_mutex := True\<rparr>, sbi0, g0, k0)
   \<and> get_cluster_info fuel h0
       (sii0\<lparr>cinfo_list := [entry 3 0 100, entry 4 100 100], i_size := 81920\<rparr>)
       sbi0 g0 k0 4 target
     = Some (- EINVAL, target,
             sii0\<lparr>cinfo_list := [entry 3 0 100, entry 4 100 100], i_size := 81920,
                  cinfo_list_mutex := True\<rparr>, sbi0, g0, k0)"
  by (simp add: get_cluster_info_def sii0_def h0_def entry_def word_sless_alt)

section \<open>A failed compression at commit\<close>

text \<open>
  Claim C3. When the codec fails on the staged last cluster, the commit is to store
  the cluster raw and go on, and the caller is to see no error. The code jumps to
  \<open>free_out\<close>: with 5000 staged bytes and an LZO compressor that fails,
  \<open>scfs_write_meta\<close> returns \<open>-EIO\<close>, has written nothing to the lower file (no
  \<open>Vfs_write\<close> in the trace: neither the cluster nor the footer), and has dropped
  the pending entry.
\<close>

theorem write_meta_compress_failure_aborts:
  "scfs_write_meta fuel h0
     (sii0\<lparr>cinfo_list := [entry 0 0 0], i_size := 5000, lower_file := Some 1,
           lower_file_count := 1,
           cluster_buffer := (cluster_buffer sii0)\<lparr>original_size := 5000\<rparr>\<rparr>)
     (sbi0\<lparr>total_cluster_count := 1, current_data_size := 5000\<rparr>) g0
     (k0\<lparr>lzo1x_1_compress_ret := (\<lambda>len cap. (- 1, 0))\<rparr>)
   = Some (- EIO,
       sii0\<lparr>i_size := 5000, lower_file := Some 1, lower_file_count := 1,
            cluster_buffer := \<lparr>c_page = False, u_page = False, c_buffer = False,
                                u_buffer = False, original_size = 5000\<rparr>\<rparr>,
       sbi0\<lparr>total_cluster_count := 1, current_data_size := 5000, current_file_count := 0\<rparr>,
       g0\<lparr>lzo_workmem := True\<rparr>,
       k0\<lparr>lzo1x_1_compress_ret := (\<lambda>len cap. (- 1, 0)),
          trace := [Vmalloc_workmem, Lzo1x_1_compress 5000, Free_pages C_buffer,
                    Free_pages U_buffer]\<rparr>)"
  by (simp add: scfs_write_meta_def write_meta_last_cluster_def scfs_compress_def free_out_def
      buf_free_out_def sii0_def sbi0_def g0_def k0_def h0_def entry_def emit_def Let_def EIO_def)

section \<open>Space admission\<close>

lemma unat_ucast_32_64: "unat (ucast (w :: 32 word) :: 64 word) = unat w"
proof -
  have "unat w < 2 ^ 32" using unsigned_less [of w] by simp
  then have "unat w < 2 ^ 64" by simp
  then show ?thesis by (simp add: unsigned_ucast_eq take_bit_nat_eq_self)
qed

lemma unat_ucast_64_32: "unat (ucast (w :: 64 word) :: 32 word) = unat w mod 2 ^ 32"
  by (simp add: unsigned_ucast_eq take_bit_eq_mod)

text \<open>
  \<open>min_space\<close> in the natural numbers: the sum, cut to the 32 bits of a \<open>size_t\<close>.
\<close>

lemma mod_64_32: "(n mod 2 ^ 64) mod 2 ^ 32 = n mod (2 ^ 32 :: nat)"
  by (rule mod_mod_cancel) (simp add: le_imp_power_dvd)

lemma min_space_mod:
  "unat (min_space h sbi) =
     (unat (total_cluster_count sbi) * unat (SIZEOF_scfs_cinfo h)
       + unat (current_file_count sbi) * unat (SIZEOF_comp_footer h)
       + unat (current_data_size sbi) + unat (PAGE_SIZE h)) mod 2 ^ 32"
proof -
  let ?A = "total_cluster_count sbi * SIZEOF_scfs_cinfo h
              + current_file_count sbi * SIZEOF_comp_footer h"
  let ?n = "unat (total_cluster_count sbi) * unat (SIZEOF_scfs_cinfo h)
       + unat (current_file_count sbi) * unat (SIZEOF_comp_footer h)"
  let ?e = "unat (current_data_size sbi)"
  let ?p = "unat (PAGE_SIZE h)"
  let ?X = "(ucast ?A :: u64) + current_data_size sbi + ucast (PAGE_SIZE h)"
  have A: "unat ?A = ?n mod 2 ^ 32"
    by (simp only: unat_word_ariths mod_simps) simp
  have X: "unat ?X = (unat ?A + ?e + ?p) mod 2 ^ 64"
    by (simp only: unat_word_ariths unat_ucast_32_64 mod_simps) simp
  have "unat (min_space h sbi) = unat ?X mod 2 ^ 32"
    by (simp only: min_space_def unat_ucast_64_32)
  also have "\<dots> = (unat ?A + ?e + ?p) mod 2 ^ 32"
    by (simp only: X mod_64_32)
  also have "\<dots> = (?n mod 2 ^ 32 + (?e + ?p)) mod 2 ^ 32"
    by (simp only: A add.assoc)
  also have "\<dots> = (?n + (?e + ?p)) mod 2 ^ 32"
    by (rule mod_add_left_eq)
  finally show ?thesis by (simp only: add.assoc)
qed

text \<open>
  Claim C7, as the specification states it: \<open>scfs_check_space\<close> returns \<open>-ENOSPC\<close>
  whenever the available space of the lower file system, its free blocks times its
  block size, is below the estimate. It fails on a lower file system whose blocks
  are smaller than a page: with 5 free blocks of 1024 bytes (5120 bytes) and an
  estimate of 2000 buffered bytes plus one page (6096 bytes) the call returns 0,
  because the code multiplies the free blocks by \<open>PAGE_SIZE\<close>.
\<close>

theorem check_space_block_size_counterexample:
  "unat (5 :: u64) * unat (1024 :: 32 word)
     < unat (total_cluster_count (sbi0\<lparr>current_file_count := 0, current_data_size := 2000\<rparr>))
         * unat (SIZEOF_scfs_cinfo h0)
       + unat (current_file_count (sbi0\<lparr>current_file_count := 0, current_data_size := 2000\<rparr>))
         * unat (SIZEOF_comp_footer h0)
       + unat (current_data_size (sbi0\<lparr>current_file_count := 0, current_data_size := 2000\<rparr>))
       + unat (PAGE_SIZE h0)
   \<and> scfs_check_space h0 (sbi0\<lparr>current_file_count := 0, current_data_size := 2000\<rparr>)
        (k0\<lparr>statfs_ret := (0, \<lparr>f_bsize = 1024, f_bavail = 5\<rparr>)\<rparr>)
      = (0, emit Statfs (k0\<lparr>statfs_ret := (0, \<lparr>f_bsize = 1024, f_bavail = 5\<rparr>)\<rparr>))"
  by (simp add: scfs_check_space_def min_space_def sbi0_def h0_def k0_def)

text \<open>
  Claim C7, amended. \<open>scfs_check_space\<close> always returns, and the only thing it does
  to the kernel is the call of \<open>statfs\<close>; it changes nothing of the file system. An
  error of \<open>statfs\<close> is returned as it is. Otherwise the call returns \<open>-ENOSPC\<close>
  exactly when the free blocks times \<open>PAGE_SIZE\<close>, as a 64-bit product (modulo
  \<open>2^64\<close>), are below the estimate \<open>total_cluster_count * sizeof(struct scfs_cinfo)
  + current_file_count * sizeof(struct comp_footer) + current_data_size + PAGE_SIZE\<close>
  as the \<open>size_t\<close> variable \<open>min_space\<close> holds it (modulo \<open>2^32\<close>), and 0 otherwise.
  The block size \<open>f_bsize\<close> is not read. The examples run a rejection, an admission,
  a failing \<open>statfs\<close>, an estimate that wraps around (4294963200 buffered bytes: the
  estimate is 24, and one free page is enough) and a product that wraps around
  (\<open>2^52\<close> free blocks: the product is 0, and the write is rejected).
\<close>

theorem check_space_page_units:
  "scfs_check_space h sbi k =
     (if fst (statfs_ret k) \<noteq> 0 then fst (statfs_ret k)
      else if (unat (f_bavail (snd (statfs_ret k))) * unat (PAGE_SIZE h)) mod 2 ^ 64
               < (unat (total_cluster_count sbi) * unat (SIZEOF_scfs_cinfo h)
                  + unat (current_file_count sbi) * unat (SIZEOF_comp_footer h)
                  + unat (current_data_size sbi) + unat (PAGE_SIZE h)) mod 2 ^ 32
      then - ENOSPC else 0,
      emit Statfs k)"
proof -
  obtain r b where sb: "statfs_ret k = (r, b)" by (cases "statfs_ret k")
  have l: "unat (f_bavail b * ucast (PAGE_SIZE h))
             = (unat (f_bavail b) * unat (PAGE_SIZE h)) mod 2 ^ 64"
    by (simp add: unat_word_ariths unat_ucast_32_64)
  have m: "unat (ucast (min_space h sbi) :: u64)
      = (unat (total_cluster_count sbi) * unat (SIZEOF_scfs_cinfo h)
                  + unat (current_file_count sbi) * unat (SIZEOF_comp_footer h)
                  + unat (current_data_size sbi) + unat (PAGE_SIZE h)) mod 2 ^ 32"
    by (simp only: unat_ucast_32_64 min_space_mod)
  show ?thesis
    using sb by (simp add: scfs_check_space_def word_less_nat_alt l m Let_def)
qed

theorem check_space_page_units_witness:
  "scfs_check_space h0 (sbi0\<lparr>current_data_size := 2000\<rparr>)
        (k0\<lparr>statfs_ret := (0, \<lparr>f_bsize = 4096, f_bavail = 1\<rparr>)\<rparr>)
      = (- ENOSPC, emit Statfs (k0\<lparr>statfs_ret := (0, \<lparr>f_bsize = 4096, f_bavail = 1\<rparr>)\<rparr>))
   \<and> scfs_check_space h0 (sbi0\<lparr>current_data_size := 2000\<rparr>)
        (k0\<lparr>statfs_ret := (0, \<lparr>f_bsize = 4096, f_bavail = 2\<rparr>)\<rparr>)
      = (0, emit Statfs (k0\<lparr>statfs_ret := (0, \<lparr>f_bsize = 4096, f_bavail = 2\<rparr>)\<rparr>))
   \<and> scfs_check_space h0 (sbi0\<lparr>current_data_size := 2000\<rparr>)
        (k0\<lparr>statfs_ret := (- EIO, \<lparr>f_bsize = 4096, f_bavail = 1\<rparr>)\<rparr>)
      = (- EIO, emit Statfs (k0\<lparr>statfs_ret := (- EIO, \<lparr>f_bsize = 4096, f_bavail = 1\<rparr>)\<rparr>))
   \<and> scfs_check_space h0 (sbi0\<lparr>current_data_size := 4294963200\<rparr>)
        (k0\<lparr>statfs_ret := (0, \<lparr>f_bsize = 4096, f_bavail = 1\<rparr>)\<rparr>)
      = (0, emit Statfs (k0\<lparr>statfs_ret := (0, \<lparr>f_bsize = 4096, f_bavail = 1\<rparr>)\<rparr>))
   \<and> scfs_check_space h0 (sbi0\<lparr>current_data_size := 2000\<rparr>)
        (k0\<lparr>statfs_ret := (0, \<lparr>f_bsize = 4096, f_bavail = 4503599627370496\<rparr>)\<rparr>)
      = (- ENOSPC,
         emit Statfs (k0\<lparr>statfs_ret := (0, \<lparr>f_bsize = 4096, f_bavail = 4503599627370496\<rparr>)\<rparr>))"
  using check_space_page_units [of h0 "sbi0\<lparr>current_data_size := 2000\<rparr>"
          "k0\<lparr>statfs_ret := (0, \<lparr>f_bsize = 4096, f_bavail = 1\<rparr>)\<rparr>"]
    check_space_page_units [of h0 "sbi0\<lparr>current_data_size := 2000\<rparr>"
          "k0\<lparr>statfs_ret := (0, \<lparr>f_bsize = 4096, f_bavail = 2\<rparr>)\<rparr>"]
    check_space_page_units [of h0 "sbi0\<lparr>current_data_size := 2000\<rparr>"
          "k0\<lparr>statfs_ret := (- EIO, \<lparr>f_bsize = 4096, f_bavail = 1\<rparr>)\<rparr>"]
    check_space_page_units [of h0 "sbi0\<lparr>current_data_size := 4294963200\<rparr>"
          "k0\<lparr>statfs_ret := (0, \<lparr>f_bsize = 4096, f_bavail = 1\<rparr>)\<rparr>"]
    check_space_page_units [of h0 "sbi0\<lparr>current_data_size := 2000\<rparr>"
          "k0\<lparr>statfs_ret := (0, \<lparr>f_bsize = 4096, f_bavail = 4503599627370496\<rparr>)\<rparr>"]
  by (simp add: h0_def sbi0_def EIO_def)

section \<open>Truncating to length zero\<close>

text \<open>
  Claim C6, as the specification states it: a truncation to length 0 re-initializes
  the index state and clears the meta-invalid flag. It fails when the kernel refuses
  to resize the lower file: the call returns the kernel's error right after
  \<open>notify_change\<close>, with the pending list already discarded and the upper size
  already 0, but with the committed array, its size, \<open>upper_file_size\<close> and the
  meta-invalid flag as they were.
\<close>

theorem truncate_resize_failure_counterexample:
  "scfs_truncate h0
     (sii0\<lparr>meta_invalid := True, cinfo_array := Some [\<lparr>offset = 0, csize = 100\<rparr>],
           cinfo_array_size := 8, cinfo_list := [entry 1 100 200], i_size := 20000,
           upper_file_size := 20000\<rparr>)
     (k0\<lparr>notify_change_ret := - EIO\<rparr>) 0
   = Some (- EIO,
       sii0\<lparr>meta_invalid := True, cinfo_array := Some [\<lparr>offset = 0, csize = 100\<rparr>],
            cinfo_array_size := 8, cinfo_list := [], i_size := 0, upper_file_size := 20000\<rparr>,
       k0\<lparr>notify_change_ret := - EIO,
          trace := [Truncate_setsize_upper 0, Notify_change 0]\<rparr>)"
  by (simp add: scfs_truncate_def sii0_def k0_def emit_def EIO_def Let_def)

text \<open>
  Claim C6, amended. \<open>scfs_truncate\<close> returns \<open>-EINVAL\<close> for every nonzero size and
  changes nothing. For size 0 it sets the upper size to 0 and takes
  \<open>cinfo_list_mutex\<close> (a call on a file whose mutex is held does not return). It
  discards the whole pending list and asks the kernel to resize the lower file to 0,
  and has written nothing up to there. If the resize fails it returns that error
  with exactly this state: upper size 0, pending list empty, everything else as it
  was. Otherwise it calls \<open>scfs_initialize_file\<close> on this state; if that fails, the
  call returns the error with the state \<open>scfs_initialize_file\<close> left and the
  meta-invalid flag set. If it succeeds the call returns 0 and the state is the
  one \<open>scfs_initialize_file\<close> left, with the committed array freed and \<open>NULL\<close>,
  \<open>cinfo_array_size\<close>, \<open>upper_file_size\<close> and the staged bytes 0, and the
  meta-invalid flag clear. Every result is given in full; in the examples
  \<open>scfs_initialize_file\<close> changes nothing, so that the pending list is empty and the
  size 0 after the call.
\<close>

theorem truncate_zero_outcomes:
  "(sz \<noteq> 0 \<longrightarrow> scfs_truncate h sii k sz = Some (- EINVAL, sii, k)) \<and>
   (sz = 0 \<and> cinfo_list_mutex sii \<longrightarrow> scfs_truncate h sii k sz = None) \<and>
   (sz = 0 \<and> \<not> cinfo_list_mutex sii \<longrightarrow>
      scfs_truncate h sii k sz =
        (let sii2 = sii\<lparr>i_size := 0, cinfo_list := []\<rparr>;
             k2 = emit (Notify_change 0) (emit (Truncate_setsize_upper 0) k);
             (ret1, sii3, k3) = scfs_initialize_file h sii2 k2
         in if notify_change_ret k \<noteq> 0 then Some (notify_change_ret k, sii2, k2)
            else if ret1 \<noteq> 0 then Some (ret1, sii3\<lparr>meta_invalid := True\<rparr>, k3)
            else Some (0,
                   sii3\<lparr>cinfo_array := None, cinfo_array_size := 0, upper_file_size := 0,
                        cluster_buffer := (cluster_buffer sii3)\<lparr>original_size := 0\<rparr>,
                        meta_invalid := False\<rparr>,
                   if cinfo_array sii3 \<noteq> None then scfs_cinfo_free sii3 k3 else k3)))"
  by (auto simp add: scfs_truncate_def Let_def emit_def split: prod.splits)

theorem truncate_zero_outcomes_witness:
  "scfs_truncate h0 (sii0\<lparr>i_size := 20000\<rparr>) k0 5 = Some (- EINVAL, sii0\<lparr>i_size := 20000\<rparr>, k0)
   \<and> scfs_truncate h0 (sii0\<lparr>i_size := 20000, cinfo_list_mutex := True\<rparr>) k0 0 = None
   \<and> scfs_truncate h0
         (sii0\<lparr>meta_invalid := True, cinfo_array := Some [\<lparr>offset = 0, csize = 100\<rparr>],
           cinfo_array_size := 8, cinfo_list := [entry 1 100 200], i_size := 20000,
           upper_file_size := 20000,
           cluster_buffer := (cluster_buffer sii0)\<lparr>original_size := 3616\<rparr>\<rparr>) k0 0
       = Some (0, sii0, k0\<lparr>trace := [Truncate_setsize_upper 0, Notify_change 0, Kfree]\<rparr>)
   \<and> scfs_truncate (h0\<lparr>scfs_initialize_file := (\<lambda>sii k. (- EIO, sii, k))\<rparr>)
          (sii0\<lparr>i_size := 20000, cinfo_list := [entry 1 100 200], upper_file_size := 20000\<rparr>) k0 0
       = Some (- EIO, sii0\<lparr>meta_invalid := True, upper_file_size := 20000\<rparr>,
               k0\<lparr>trace := [Truncate_setsize_upper 0, Notify_change 0]\<rparr>)
   \<and> scfs_truncate h0 (sii0\<lparr>i_size := 20000, cinfo_list := [entry 1 100 200]\<rparr>)
          (k0\<lparr>notify_change_ret := - EIO\<rparr>) 0
       = Some (- EIO, sii0,
               k0\<lparr>notify_change_ret := - EIO, trace := [Truncate_setsize_upper 0, Notify_change 0]\<rparr>)"
  using truncate_zero_outcomes [of 5 h0 "sii0\<lparr>i_size := 20000\<rparr>" k0]
    truncate_zero_outcomes [of 0 h0 "sii0\<lparr>i_size := 20000, cinfo_list_mutex := True\<rparr>" k0]
    truncate_zero_outcomes [of 0 h0
       "sii0\<lparr>meta_invalid := True, cinfo_array := Some [\<lparr>offset = 0, csize = 100\<rparr>],
           cinfo_array_size := 8, cinfo_list := [entry 1 100 200], i_size := 20000,
           upper_file_size := 20000,
           cluster_buffer := (cluster_buffer sii0)\<lparr>original_size := 3616\<rparr>\<rparr>" k0]
    truncate_zero_outcomes [of 0 "h0\<lparr>scfs_initialize_file := (\<lambda>sii k. (- EIO, sii, k))\<rparr>"
       "sii0\<lparr>i_size := 20000, cinfo_list := [entry 1 100 200], upper_file_size := 20000\<rparr>" k0]
    truncate_zero_outcomes [of 0 h0 "sii0\<lparr>i_size := 20000, cinfo_list := [entry 1 100 200]\<rparr>"
       "k0\<lparr>notify_change_ret := - EIO\<rparr>"]
  by (simp add: h0_def sii0_def k0_def emit_def EIO_def Let_def scfs_cinfo_free_def)

section \<open>The trace and the \<open>compressed\<close> flag across a commit\<close>

text \<open>
  The parts of \<open>scfs_write_meta\<close> only add calls to the trace, and none of them
  but the block for the staged last cluster writes the \<open>compressed\<close> flag.
\<close>

lemma prefix_emit: "prefix (trace k) (trace k') \<Longrightarrow> prefix (trace k) (trace (emit e k'))"
  by (simp add: emit_def prefix_def) auto

lemma lower_write_loop_prefix:
  "lower_write_loop fuel h buf count k pos w r = Some (ret, pos', k')
    \<Longrightarrow> prefix (trace k) (trace k')"
proof (induction fuel arbitrary: k pos w r)
  case 0
  then show ?case by simp
next
  case (Suc fuel)
  let ?k1 = "emit (Vfs_write buf w (count - w) pos) (k\<lparr>io_calls := Suc (io_calls k)\<rparr>)"
  have k1: "prefix (trace k) (trace ?k1)" by (simp add: emit_def)
  from Suc.prems have "k' = k \<or> k' = ?k1
      \<or> (\<exists>p w' r'. lower_write_loop fuel h buf count ?k1 p w' r' = Some (ret, pos', k'))"
    by (auto simp add: Let_def split: if_splits)
  then show ?case
    using k1 Suc.IH by (auto intro: prefix_order.trans)
qed

lemma lower_write_first:
  assumes "scfs_lower_write fuel h buf count k pos = Some (ret, pos', k')" and "count \<noteq> 0"
  shows "prefix (trace k @ [Vfs_write buf 0 count pos]) (trace k')"
proof (cases fuel)
  case 0
  with assms show ?thesis by (simp add: scfs_lower_write_def)
next
  case (Suc n)
  let ?k1 = "emit (Vfs_write buf 0 count pos) (k\<lparr>io_calls := Suc (io_calls k)\<rparr>)"
  have t: "trace ?k1 = trace k @ [Vfs_write buf 0 count pos]" by (simp add: emit_def)
  from assms(2) have lt: "0 < count" by (simp add: word_neq_0_conv)
  from assms(1) Suc lt have "k' = ?k1
      \<or> (\<exists>p w' r'. lower_write_loop n h buf count ?k1 p w' r' = Some (ret, pos', k'))"
    by (auto simp add: scfs_lower_write_def Let_def split: if_splits)
  then show ?thesis
    using t lower_write_loop_prefix by (metis prefix_order.refl)
qed


lemma write_cinfo_loop_keeps:
  "write_cinfo_loop fuel h es sii sbi k pos buf_pos written = Some (ret, pos', sii', sbi', k')
    \<Longrightarrow> prefix (trace k) (trace k') \<and> compressed sii' = compressed sii"
proof (induction es arbitrary: sii sbi k pos buf_pos written)
  case Nil
  then show ?case by simp
next
  case (Cons e es)
  let ?sii1 = "sii\<lparr>cinfo_list := es\<rparr>"
  let ?bp = "buf_pos + SIZEOF_scfs_cinfo h"
  show ?case
  proof (cases "cluster_size sii * 2 - SIZEOF_scfs_cinfo h < ?bp \<or> es = []")
    case False
    with Cons.prems
    have "write_cinfo_loop fuel h es ?sii1 sbi k pos ?bp written = Some (ret, pos', sii', sbi', k')"
      by (simp add: Let_def)
    from Cons.IH [OF this] show ?thesis by simp
  next
    case True
    with Cons.prems obtain r p1 k1 where
      w: "scfs_lower_write fuel h U_buffer ?bp k pos = Some (r, p1, k1)"
      by (auto simp add: Let_def split: option.splits)
    then have pk1: "prefix (trace k) (trace k1)"
      by (simp add: scfs_lower_write_def lower_write_loop_prefix)
    show ?thesis
    proof (cases "r <s 0")
      case True
      with Cons.prems \<open>cluster_size sii * 2 - SIZEOF_scfs_cinfo h < ?bp \<or> es = []\<close> w pk1
      show ?thesis by (auto simp add: Let_def)
    next
      case False
      with Cons.prems \<open>cluster_size sii * 2 - SIZEOF_scfs_cinfo h < ?bp \<or> es = []\<close> w
      have "write_cinfo_loop fuel h es ?sii1
              (sbi\<lparr>total_cluster_count := total_cluster_count sbi - r div SIZEOF_scfs_cinfo h\<rparr>)
              k1 p1 0 (written + r) = Some (ret, pos', sii', sbi', k')"
        by (auto simp add: Let_def)
      from Cons.IH [OF this] pk1 show ?thesis
        by (auto intro: prefix_order.trans)
    qed
  qed
qed

lemma scfs_write_cinfo_keeps:
  assumes "scfs_write_cinfo fuel h sii sbi k pos = Some (ret, pos', sii', sbi', k')"
  shows "prefix (trace k) (trace k') \<and> compressed sii' = compressed sii"
proof (cases "cinfo_array_size sii \<noteq> 0")
  case False
  with assms have "write_cinfo_loop fuel h (cinfo_list sii) sii sbi k pos 0 0
      = Some (ret, pos', sii', sbi', k')"
    by (simp add: scfs_write_cinfo_def split: if_splits)
  then show ?thesis by (rule write_cinfo_loop_keeps)
next
  case True
  with assms obtain r p1 k1 where
    w: "scfs_lower_write fuel h Cinfo_array
          (SIZEOF_scfs_cinfo h * current_cluster_idx (hd (cinfo_list sii))) k pos = Some (r, p1, k1)"
    by (auto simp add: scfs_write_cinfo_def split: if_splits list.splits option.splits)
  then have pk1: "prefix (trace k) (trace k1)"
    by (simp add: scfs_lower_write_def lower_write_loop_prefix)
  show ?thesis
  proof (cases "r <s 0")
    case True
    with assms \<open>cinfo_array_size sii \<noteq> 0\<close> w pk1 show ?thesis
      by (auto simp add: scfs_write_cinfo_def split: if_splits list.splits)
  next
    case False
    with assms \<open>cinfo_array_size sii \<noteq> 0\<close> w
    have "write_cinfo_loop fuel h (cinfo_list sii) sii sbi k1 p1 0 r
            = Some (ret, pos', sii', sbi', k')"
      by (auto simp add: scfs_write_cinfo_def split: if_splits list.splits)
    from write_cinfo_loop_keeps [OF this] pk1 show ?thesis
      by (auto intro: prefix_order.trans)
  qed
qed

lemma buf_free_out_keeps:
  assumes "buf_free_out ret sii sbi g k = (ret', sii', sbi', g', k')"
  shows "ret' = ret \<and> prefix (trace k) (trace k') \<and> compressed sii' = compressed sii
         \<and> cinfo_list sii' = cinfo_list sii \<and> lower_file sii' = lower_file sii"
  using assms
  by (auto simp add: buf_free_out_def Let_def emit_def prefix_def split: if_splits)

lemma free_out_keeps:
  assumes "free_out ret sii sbi g k = (ret', sii', sbi', g', k')"
  shows "ret' = ret \<and> prefix (trace k) (trace k') \<and> compressed sii' = compressed sii
         \<and> cinfo_list sii' = [] \<and> lower_file sii' = lower_file sii"
  using buf_free_out_keeps [of ret "sii\<lparr>cinfo_list := [], cinfo_list_mutex := False\<rparr>" sbi g k]
    assms
  by (simp add: free_out_def)

lemma free_out_after:
  assumes "free_out r s sbi g kk = (ret, sii', sbi', g', k')"
    and "prefix (trace k) (trace kk)" and "compressed s = c"
  shows "prefix (trace k) (trace k') \<and> compressed sii' = c"
  using free_out_keeps [OF assms(1)] assms(2,3) by (auto intro: prefix_order.trans)

lemma write_meta_footer_keeps:
  assumes "write_meta_footer fuel h fs pos sii sbi g k = Some (ret, sii', sbi', g', k')"
  shows "prefix (trace k) (trace k') \<and> compressed sii' = compressed sii"
proof -
  from assms obtain r p1 k1 where
    w: "scfs_lower_write fuel h Comp_footer (CF_SIZE h) k pos = Some (r, p1, k1)"
    by (auto simp add: write_meta_footer_def Let_def split: option.splits)
  then have pk1: "prefix (trace k) (trace k1)"
    by (simp add: scfs_lower_write_def lower_write_loop_prefix)
  let ?k2 = "emit (Notify_change p1) (emit (Truncate_setsize_lower p1) k1)"
  let ?done = "if CF_SIZE h < fs + CF_SIZE h then sii\<lparr>meta_invalid := True\<rparr>
               else sii\<lparr>compressable := False\<rparr>"
  have pk2: "prefix (trace k) (trace ?k2)"
    using pk1 by (intro prefix_emit)
  have d: "compressed ?done = compressed sii" by simp
  have i: "compressed (sii\<lparr>meta_invalid := True\<rparr>) = compressed sii" by simp
  from assms w have
    "free_out r (sii\<lparr>meta_invalid := True\<rparr>) sbi g k1 = (ret, sii', sbi', g', k')
     \<or> free_out (notify_change_ret ?k2) (sii\<lparr>meta_invalid := True\<rparr>) sbi g ?k2
          = (ret, sii', sbi', g', k')
     \<or> free_out (notify_change_ret ?k2) ?done sbi g ?k2 = (ret, sii', sbi', g', k')
     \<or> free_out 0 ?done sbi g k1 = (ret, sii', sbi', g', k')"
    by (simp add: write_meta_footer_def Let_def split: if_splits)
  then show ?thesis
    by (elim disjE)
       (erule free_out_after [OF _ pk1 i] free_out_after [OF _ pk2 i]
          free_out_after [OF _ pk2 d] free_out_after [OF _ pk1 d])+
qed


lemma free_out_fields:
  "fst (free_out r s sbi g kk) = r
   \<and> compressed (fst (snd (free_out r s sbi g kk))) = compressed s
   \<and> prefix (trace kk) (trace (snd (snd (snd (snd (free_out r s sbi g kk))))))"
  using free_out_keeps [of r s sbi g kk] by (cases "free_out r s sbi g kk") simp

section \<open>The staged last cluster at commit\<close>

lemma write_meta_last_cluster_stored:
  assumes orig: "original_size (cluster_buffer sii) = staged" "staged \<noteq> 0"
    and c0: "compressed sii = c0"
    and off: "offset (cinfo (last (cinfo_list sii))) = off"
    and comp: "scfs_compress (comp_type sii) staged
                 (csize (cinfo (last (cinfo_list sii)))) g k = (0, len, g1, k1)"
    and res: "write_meta_last_cluster fuel h sii sbi g k = Some out"
  shows "\<exists>ret2 pos2 k2.
     scfs_lower_write fuel h
        (if len < staged * comp_threshold sbi div 100 then C_buffer else U_buffer)
        ((if len < staged * comp_threshold sbi div 100 then len else staged)
         + (ALIGN len (SCFS_CLUSTER_ALIGN_BYTE h) - len))
        k1 (ucast off) = Some (ret2, pos2, k2)
     \<and> (case out of
           Inl r \<Rightarrow> ret2 <s 0 \<and> fst r = ret2
             \<and> compressed (fst (snd r))
                 = (if len < staged * comp_threshold sbi div 100 then 1 else c0)
             \<and> prefix (trace k2) (trace (snd (snd (snd (snd r)))))
         | Inr x \<Rightarrow> \<not> ret2 <s 0
             \<and> compressed (fst x)
                 = (if len < staged * comp_threshold sbi div 100 then 1 else c0)
             \<and> cinfo_list (fst x) \<noteq> []
             \<and> csize (cinfo (last (cinfo_list (fst x))))
                 = (if len < staged * comp_threshold sbi div 100 then len else staged)
             \<and> snd (snd (snd x)) = k2)"
proof -
  from orig have lt: "0 < original_size (cluster_buffer sii)" by (simp add: word_neq_0_conv)
  show ?thesis
    using res lt comp orig(1) c0 off
    by (auto simp add: write_meta_last_cluster_def Let_def free_out_fields
        split: option.splits if_splits)
qed

lemma threshold_unat:
  fixes len orig thr :: "32 word"
  assumes "unat orig * unat thr < 2 ^ 32"
  shows "len < orig * thr div 100 \<longleftrightarrow> unat len < unat orig * unat thr div 100"
proof -
  have "unat (orig * thr) = unat orig * unat thr"
    using assms by (simp add: unat_word_ariths)
  then show ?thesis
    by (simp add: word_less_nat_alt unat_div)
qed

lemma write_meta_rest_keeps:
  assumes "scfs_write_meta fuel h sii sbi g k = Some (ret, sii', sbi', g', k')"
    and "\<not> cinfo_list_mutex sii" and "cinfo_list sii \<noteq> []" and "compressable sii"
    and "write_meta_last_cluster fuel h (sii\<lparr>cinfo_list_mutex := True\<rparr>) sbi g k
           = Some (Inr (sii1, sbi1, g1, k2))"
  shows "prefix (trace k2) (trace k') \<and> compressed sii' = compressed sii1"
proof (cases "compressed sii1 \<noteq> 0")
  case False
  with assms have "\<exists>pos. write_meta_footer fuel h 0 pos sii1 sbi1 g1 k2
      = Some (ret, sii', sbi', g', k')"
    by (auto simp add: scfs_write_meta_def Let_def)
  then show ?thesis using write_meta_footer_keeps by blast
next
  case True
  with assms obtain pos r pos2 sii2 sbi2 k3 where
    wc: "scfs_write_cinfo fuel h sii1 sbi1 k2 pos = Some (r, pos2, sii2, sbi2, k3)"
    and rest: "(r <s 0 \<and> free_out r sii2 sbi2 g1 k3 = (ret, sii', sbi', g', k'))
       \<or> (\<not> r <s 0 \<and> write_meta_footer fuel h r pos2 sii2 sbi2 g1 k3
               = Some (ret, sii', sbi', g', k'))"
    by (auto simp add: scfs_write_meta_def Let_def split: option.splits if_splits)
  from scfs_write_cinfo_keeps [OF wc]
  have a: "prefix (trace k2) (trace k3)" and b: "compressed sii2 = compressed sii1" by simp_all
  from rest show ?thesis
  proof
    assume "r <s 0 \<and> free_out r sii2 sbi2 g1 k3 = (ret, sii', sbi', g', k')"
    then show ?thesis using free_out_after [OF _ a b] by blast
  next
    assume "\<not> r <s 0 \<and> write_meta_footer fuel h r pos2 sii2 sbi2 g1 k3
               = Some (ret, sii', sbi', g', k')"
    then have "prefix (trace k3) (trace k') \<and> compressed sii' = compressed sii2"
      using write_meta_footer_keeps by blast
    with a b show ?thesis by (auto intro: prefix_order.trans)
  qed
qed

text \<open>
  What a commit that returns has done with the staged last cluster, in terms of the
  length \<open>len\<close> that \<open>scfs_compress\<close> leaves in \<open>last->cinfo.size\<close>: the comparison
  \<open>len < original_size * comp_threshold / 100\<close> decides the flag, the buffer and the
  byte count of the first transfer, and the size in the descriptor.
\<close>

lemma write_meta_stored_form:
  assumes free: "\<not> cinfo_list_mutex sii" and ne: "cinfo_list sii \<noteq> []"
    and ca: "compressable sii" and orig: "original_size (cluster_buffer sii) \<noteq> 0"
    and comp: "scfs_compress (comp_type sii) (original_size (cluster_buffer sii))
                 (csize (cinfo (last (cinfo_list sii)))) g k = (0, len, g1, k1)"
    and ret: "scfs_write_meta fuel h sii sbi g k = Some (ret, sii', sbi', g', k')"
  shows
    "(let staged = original_size (cluster_buffer sii);
          keep = (len < staged * comp_threshold sbi div 100);
          stored = (if keep then len else staged);
          padding = ALIGN len (SCFS_CLUSTER_ALIGN_BYTE h) - len
      in compressed sii' = (if keep then 1 else compressed sii)
         \<and> (stored + padding \<noteq> 0 \<longrightarrow>
               prefix (trace k1 @ [Vfs_write (if keep then C_buffer else U_buffer) 0
                                      (stored + padding)
                                      (ucast (offset (cinfo (last (cinfo_list sii)))))])
                      (trace k'))
         \<and> (\<forall>x. write_meta_last_cluster fuel h (sii\<lparr>cinfo_list_mutex := True\<rparr>) sbi g k
                   = Some (Inr x)
               \<longrightarrow> csize (cinfo (last (cinfo_list (fst x)))) = stored)
         \<and> (unat staged * unat (comp_threshold sbi) < 2 ^ 32 \<longrightarrow>
               (keep \<longleftrightarrow> unat len < unat staged * unat (comp_threshold sbi) div 100)))"
proof -
  let ?sii0 = "sii\<lparr>cinfo_list_mutex := True\<rparr>"
  let ?staged = "original_size (cluster_buffer sii)"
  let ?keep = "len < ?staged * comp_threshold sbi div 100"
  let ?stored = "if ?keep then len else ?staged"
  let ?padding = "ALIGN len (SCFS_CLUSTER_ALIGN_BYTE h) - len"
  let ?src = "if ?keep then C_buffer else U_buffer"
  let ?pos = "ucast (offset (cinfo (last (cinfo_list sii)))) :: loff_t"
  from ret free ne ca obtain out where
    blk: "write_meta_last_cluster fuel h ?sii0 sbi g k = Some out"
    by (auto simp add: scfs_write_meta_def Let_def split: option.splits)
  have orig0: "original_size (cluster_buffer ?sii0) = ?staged" by simp
  have c0: "compressed ?sii0 = compressed sii" by simp
  have off0: "offset (cinfo (last (cinfo_list ?sii0))) = offset (cinfo (last (cinfo_list sii)))"
    by simp
  have comp0: "scfs_compress (comp_type ?sii0) ?staged
                 (csize (cinfo (last (cinfo_list ?sii0)))) g k = (0, len, g1, k1)"
    using comp by simp
  have "\<exists>ret2 pos2 k2.
      scfs_lower_write fuel h ?src (?stored + ?padding) k1 ?pos = Some (ret2, pos2, k2)
      \<and> (case out of
           Inl r \<Rightarrow> ret2 <s 0 \<and> fst r = ret2
             \<and> compressed (fst (snd r)) = (if ?keep then 1 else compressed sii)
             \<and> prefix (trace k2) (trace (snd (snd (snd (snd r)))))
         | Inr x \<Rightarrow> \<not> ret2 <s 0
             \<and> compressed (fst x) = (if ?keep then 1 else compressed sii)
             \<and> cinfo_list (fst x) \<noteq> []
             \<and> csize (cinfo (last (cinfo_list (fst x)))) = ?stored
             \<and> snd (snd (snd x)) = k2)"
    using write_meta_last_cluster_stored [OF orig0 orig c0 off0 comp0 blk] .
  then obtain ret2 pos2 k2 where
    lw: "scfs_lower_write fuel h ?src (?stored + ?padding) k1 ?pos = Some (ret2, pos2, k2)"
    and o: "case out of
           Inl r \<Rightarrow> ret2 <s 0 \<and> fst r = ret2
             \<and> compressed (fst (snd r)) = (if ?keep then 1 else compressed sii)
             \<and> prefix (trace k2) (trace (snd (snd (snd (snd r)))))
         | Inr x \<Rightarrow> \<not> ret2 <s 0
             \<and> compressed (fst x) = (if ?keep then 1 else compressed sii)
             \<and> cinfo_list (fst x) \<noteq> []
             \<and> csize (cinfo (last (cinfo_list (fst x)))) = ?stored
             \<and> snd (snd (snd x)) = k2"
    by blast
  have first: "?stored + ?padding \<noteq> 0 \<Longrightarrow>
      prefix (trace k1 @ [Vfs_write ?src 0 (?stored + ?padding) ?pos]) (trace k2)"
    using lower_write_first [OF lw] by simp
  have tail: "prefix (trace k2) (trace k') \<and> compressed sii' = (if ?keep then 1 else compressed sii)"
  proof (cases out)
    case (Inl r)
    with ret free ne ca blk have "r = (ret, sii', sbi', g', k')"
      by (simp add: scfs_write_meta_def Let_def)
    with o Inl show ?thesis by simp
  next
    case (Inr x)
    obtain sii1 sbi1 g1' k2' where x: "x = (sii1, sbi1, g1', k2')" by (cases x) auto
    with o Inr have k2': "k2' = k2" and c1: "compressed sii1 = (if ?keep then 1 else compressed sii)"
      by simp_all
    from blk Inr x k2' have "write_meta_last_cluster fuel h ?sii0 sbi g k
        = Some (Inr (sii1, sbi1, g1', k2))" by simp
    from write_meta_rest_keeps [OF ret free ne ca this] c1 show ?thesis by simp
  qed
  have third: "\<forall>x. write_meta_last_cluster fuel h ?sii0 sbi g k = Some (Inr x)
               \<longrightarrow> csize (cinfo (last (cinfo_list (fst x)))) = ?stored"
    using blk o by auto
  have fourth: "unat ?staged * unat (comp_threshold sbi) < 2 ^ 32 \<longrightarrow>
               (?keep \<longleftrightarrow> unat len < unat ?staged * unat (comp_threshold sbi) div 100)"
    using threshold_unat by blast
  from first tail have second: "?stored + ?padding \<noteq> 0 \<longrightarrow>
      prefix (trace k1 @ [Vfs_write ?src 0 (?stored + ?padding) ?pos]) (trace k')"
    by (auto intro: prefix_order.trans)
  show ?thesis
    unfolding Let_def using tail second third fourth by blast
qed

lemmas run_defs = scfs_write_meta_def write_meta_last_cluster_def scfs_compress_def free_out_def
  buf_free_out_def write_meta_footer_def scfs_write_cinfo_def scfs_lower_write_def
  sii0_def sbi0_def g0_def k0_def h0_def entry_def emit_def Let_def ALIGN_def word_sless_alt

text \<open>
  Claim C2. At commit the staged last cluster is to be kept compressed exactly when
  the compressed length is below \<open>original_size * comp_threshold / 100\<close>; otherwise
  the raw bytes are to be stored, with the descriptor's size set to \<open>original_size\<close>
  and the \<open>compressed\<close> flag not set. The comparison of \<open>scfs_write_meta\<close> reads
  \<open>last->cinfo.size\<close>, which \<open>scfs_compress\<close> sets to the codec's length only for
  \<open>LZO\<close>; for the other types it is left as it was on entry. Three commits of one
  pending cluster with 5000 staged bytes and a threshold of 80 percent (bound 4000),
  each with its whole result. On a \<open>ZLIB\<close> file with a fresh descriptor (size 0, as
  \<open>scfs_alloc_cinfo_entry\<close> leaves it) and a codec length of 4500, which is not
  below the bound, the \<open>compressed\<close> flag is set to 1 and no byte of the cluster is
  written: the descriptor table follows at offset 0. On a \<open>ZLIB\<close> file whose
  descriptor holds the cluster size 16384 on entry and a codec length of 100, which
  is below the bound, the 5000 raw bytes are written from \<open>u_buffer\<close> and the flag
  stays 0. The same commit on an \<open>LZO\<close> file writes the 100 bytes from \<open>c_buffer\<close>
  and sets the flag.
\<close>

theorem write_meta_threshold_generic_codec:
  "scfs_write_meta (Suc (Suc fuel)) h0
     (sii0\<lparr>comp_type := ZLIB, cinfo_list := [entry 0 0 0], i_size := 5000,
           lower_file := Some 1, lower_file_count := 1,
           cluster_buffer := (cluster_buffer sii0)\<lparr>original_size := 5000\<rparr>\<rparr>)
     (sbi0\<lparr>total_cluster_count := 1, current_data_size := 5000\<rparr>) g0
     (k0\<lparr>crypto_comp_compress_ret := (\<lambda>algo len cap. (0, 4500))\<rparr>)
   = Some (0,
       sii0\<lparr>comp_type := ZLIB, i_size := 5000, lower_file := Some 1, lower_file_count := 1,
            meta_invalid := True, compressed := 1,
            cluster_buffer := \<lparr>c_page = False, u_page = False, c_buffer = False,
                               u_buffer = False, original_size = 0\<rparr>\<rparr>,
       sbi0\<lparr>total_cluster_count := 0, current_file_count := 0, current_data_size := 0\<rparr>,
       g0\<lparr>tfm_handles := (tfm_handles g0)(ZLIB := True)\<rparr>,
       k0\<lparr>crypto_comp_compress_ret := (\<lambda>algo len cap. (0, 4500)), io_calls := 2,
          trace := [Crypto_alloc_comp ZLIB, Crypto_comp_compress ZLIB 5000,
                    Vfs_write U_buffer 0 8 0, Vfs_write Comp_footer 0 24 8,
                    Free_pages C_buffer, Free_pages U_buffer]\<rparr>)
   \<and> scfs_write_meta (Suc (Suc fuel)) h0
     (sii0\<lparr>comp_type := ZLIB, cinfo_list := [entry 0 0 16384], i_size := 5000,
           lower_file := Some 1, lower_file_count := 1,
           cluster_buffer := (cluster_buffer sii0)\<lparr>original_size := 5000\<rparr>\<rparr>)
     (sbi0\<lparr>total_cluster_count := 1, current_data_size := 5000\<rparr>) g0
     (k0\<lparr>crypto_comp_compress_ret := (\<lambda>algo len cap. (0, 100))\<rparr>)
   = Some (0,
       sii0\<lparr>comp_type := ZLIB, i_size := 5000, lower_file := Some 1, lower_file_count := 1,
            compressable := False, compressed := 0,
            cluster_buffer := \<lparr>c_page = False, u_page = False, c_buffer = False,
                               u_buffer = False, original_size = 0\<rparr>\<rparr>,
       sbi0\<lparr>total_cluster_count := 1, current_file_count := 0, current_data_size := 0\<rparr>,
       g0\<lparr>tfm_handles := (tfm_handles g0)(ZLIB := True)\<rparr>,
       k0\<lparr>crypto_comp_compress_ret := (\<lambda>algo len cap. (0, 100)), io_calls := 2,
          trace := [Crypto_alloc_comp ZLIB, Crypto_comp_compress ZLIB 5000,
                    Vfs_write U_buffer 0 5000 0, Vfs_write Comp_footer 0 24 5000,
                    Free_pages C_buffer, Free_pages U_buffer]\<rparr>)
   \<and> scfs_write_meta (Suc (Suc fuel)) h0
     (sii0\<lparr>comp_type := LZO, cinfo_list := [entry 0 0 16384], i_size := 5000,
           lower_file := Some 1, lower_file_count := 1,
           cluster_buffer := (cluster_buffer sii0)\<lparr>original_size := 5000\<rparr>\<rparr>)
     (sbi0\<lparr>total_cluster_count := 1, current_data_size := 5000\<rparr>) g0
     (k0\<lparr>lzo1x_1_compress_ret := (\<lambda>len cap. (0, 100))\<rparr>)
   = Some (0,
       sii0\<lparr>comp_type := LZO, i_size := 5000, lower_file := Some 1, lower_file_count := 1,
            meta_invalid := True, compressed := 1,
            cluster_buffer := \<lparr>c_page = False, u_page = False, c_buffer = False,
                               u_buffer = False, original_size = 0\<rparr>\<rparr>,
       sbi0\<lparr>total_cluster_count := 0, current_file_count := 0, current_data_size := 0\<rparr>,
       g0\<lparr>lzo_workmem := True\<rparr>,
       k0\<lparr>lzo1x_1_compress_ret := (\<lambda>len cap. (0, 100)), io_calls := 3,
          trace := [Vmalloc_workmem, Lzo1x_1_compress 5000,
                    Vfs_write C_buffer 0 100 0, Vfs_write U_buffer 0 8 100,
                    Vfs_write Comp_footer 0 24 108,
                    Free_pages C_buffer, Free_pages U_buffer]\<rparr>)"
  by (simp add: run_defs)

section \<open>The lower-file session\<close>

lemma scfs_compress_prefix:
  "scfs_compress algo len actual g k = (ret, act, g1, k1) \<Longrightarrow> prefix (trace k) (trace k1)"
  by (cases algo)
     (auto simp add: scfs_compress_def Let_def emit_def prefix_def split: if_splits prod.splits)

lemma prefix_free_out:
  "prefix (trace k) (trace k1)
    \<Longrightarrow> prefix (trace k) (trace (snd (snd (snd (snd (free_out r s sbi g k1))))))"
  using free_out_fields [of r s sbi g k1] by (auto intro: prefix_order.trans)

lemma write_meta_last_cluster_prefix:
  assumes "write_meta_last_cluster fuel h sii sbi g k = Some out"
  shows "case out of
           Inl r \<Rightarrow> prefix (trace k) (trace (snd (snd (snd (snd r)))))
         | Inr x \<Rightarrow> prefix (trace k) (trace (snd (snd (snd x))))"
proof -
  obtain ret size1 g1 k1 where
    c: "scfs_compress (comp_type sii) (original_size (cluster_buffer sii))
          (csize (cinfo (last (cinfo_list sii)))) g k = (ret, size1, g1, k1)"
    by (cases "scfs_compress (comp_type sii) (original_size (cluster_buffer sii))
          (csize (cinfo (last (cinfo_list sii)))) g k") auto
  from scfs_compress_prefix [OF c] have p1: "prefix (trace k) (trace k1)" .
  show ?thesis
    using assms c p1
    by (auto simp add: write_meta_last_cluster_def Let_def scfs_lower_write_def
        split: option.splits if_splits
        dest!: lower_write_loop_prefix)
       (blast intro: prefix_free_out prefix_order.trans)+
qed

lemma scfs_write_meta_prefix:
  assumes "scfs_write_meta fuel h sii sbi g k = Some (ret, sii', sbi', g', k')"
  shows "prefix (trace k) (trace k')"
proof -
  from assms have free: "\<not> cinfo_list_mutex sii"
    by (auto simp add: scfs_write_meta_def split: if_splits)
  let ?sii0 = "sii\<lparr>cinfo_list_mutex := True\<rparr>"
  show ?thesis
  proof (cases "cinfo_list sii = []")
    case True
    with assms free show ?thesis
      using buf_free_out_keeps by (fastforce simp add: scfs_write_meta_def Let_def)
  next
    case ne: False
    show ?thesis
    proof (cases "compressable sii")
      case False
      with assms free ne show ?thesis
        using write_meta_footer_keeps by (fastforce simp add: scfs_write_meta_def Let_def)
    next
      case True
      with assms free ne obtain out where
        blk: "write_meta_last_cluster fuel h ?sii0 sbi g k = Some out"
        by (auto simp add: scfs_write_meta_def Let_def split: option.splits)
      show ?thesis
      proof (cases out)
        case (Inl r)
        with assms free ne True blk have "r = (ret, sii', sbi', g', k')"
          by (simp add: scfs_write_meta_def Let_def)
        with write_meta_last_cluster_prefix [OF blk] Inl show ?thesis by simp
      next
        case (Inr x)
        obtain sii1 sbi1 g1 k2 where x: "x = (sii1, sbi1, g1, k2)" by (cases x) auto
        with write_meta_last_cluster_prefix [OF blk] Inr
        have p: "prefix (trace k) (trace k2)" by simp
        from blk Inr x have "write_meta_last_cluster fuel h ?sii0 sbi g k
            = Some (Inr (sii1, sbi1, g1, k2))" by simp
        from write_meta_rest_keeps [OF assms free ne True this] p show ?thesis
          by (auto intro: prefix_order.trans)
      qed
    qed
  qed
qed


text \<open>
  Claim C8. Release: when the count goes from 1 to 0 (and the session mutex is free),
  \<open>scfs_put_lower_file\<close> first has the dirty pages written back, then runs
  \<open>scfs_write_meta\<close> on the state that this leaves, then closes the cached handle
  with \<open>fput\<close> and sets it to \<open>NULL\<close>, and releases the mutex; this holds for every
  status \<open>ret\<close> of the commit, errors included. In the trace the write-back comes
  first and the \<open>fput\<close> last, with the calls of the commit between them (writing
  back only adds calls to the trace). Acquire: when the count goes from 0 to 1 and
  opening the lower file fails, \<open>scfs_get_lower_file\<close> returns the error of the open
  and leaves the count 0, the handle \<open>NULL\<close> and the mutex free.
\<close>

theorem lower_file_session:
  assumes one: "lower_file_count sii = 1" and free: "\<not> lower_file_mutex sii"
    and wb: "writeback h (sii\<lparr>lower_file_count := 0, lower_file_mutex := True\<rparr>) sbi
               (emit Filemap_write_and_wait k) = (sii3, sbi3, k3)"
    and ext: "prefix (trace (emit Filemap_write_and_wait k)) (trace k3)"
    and wm: "scfs_write_meta fuel h sii3 sbi3 g k3 = Some (ret, sii4, sbi4, g4, k4)"
  shows "scfs_put_lower_file fuel h sii sbi g k
           = Some (sii4\<lparr>lower_file := None, lower_file_mutex := False\<rparr>, sbi4, g4,
                   emit (Fput (lower_file sii4)) k4)
         \<and> (\<exists>evs. trace (emit (Fput (lower_file sii4)) k4)
                     = trace k @ Filemap_write_and_wait # evs @ [Fput (lower_file sii4)])
         \<and> (lower_file_count a = 0 \<and> \<not> lower_file_mutex a \<and> fst (privileged_open_ret ka) \<noteq> 0
              \<longrightarrow> (\<exists>a'. scfs_get_lower_file a ka
                            = Some (fst (privileged_open_ret ka), a', emit Privileged_open ka)
                         \<and> lower_file_count a' = 0 \<and> lower_file a' = None
                         \<and> \<not> lower_file_mutex a'))"
proof -
  have put: "scfs_put_lower_file fuel h sii sbi g k
           = Some (sii4\<lparr>lower_file := None, lower_file_mutex := False\<rparr>, sbi4, g4,
                   emit (Fput (lower_file sii4)) k4)"
    using one free wb wm by (simp add: scfs_put_lower_file_def Let_def)
  from scfs_write_meta_prefix [OF wm] ext
  have "prefix (trace k @ [Filemap_write_and_wait]) (trace k4)"
    by (auto simp add: emit_def intro: prefix_order.trans)
  then obtain evs where "trace k4 = (trace k @ [Filemap_write_and_wait]) @ evs"
    by (auto simp add: prefix_def)
  then have order: "\<exists>evs. trace (emit (Fput (lower_file sii4)) k4)
                     = trace k @ Filemap_write_and_wait # evs @ [Fput (lower_file sii4)]"
    by (simp add: emit_def)
  have get: "lower_file_count a = 0 \<and> \<not> lower_file_mutex a \<and> fst (privileged_open_ret ka) \<noteq> 0
              \<longrightarrow> (\<exists>a'. scfs_get_lower_file a ka
                            = Some (fst (privileged_open_ret ka), a', emit Privileged_open ka)
                         \<and> lower_file_count a' = 0 \<and> lower_file a' = None
                         \<and> \<not> lower_file_mutex a')"
    by (cases "privileged_open_ret ka")
       (auto simp add: scfs_get_lower_file_def scfs_initialize_lower_file_def Let_def
          word_sless_alt)
  from put order get show ?thesis by blast
qed


theorem lower_file_session_witness:
  "(\<exists>sii' sbi' g' k'.
      scfs_put_lower_file (Suc 0) h0
        (sii0\<lparr>cinfo_list := [entry 0 0 0], i_size := 5000, lower_file := Some 1,
              lower_file_count := 1,
              cluster_buffer := (cluster_buffer sii0)\<lparr>original_size := 5000\<rparr>\<rparr>)
        (sbi0\<lparr>total_cluster_count := 1, current_data_size := 5000\<rparr>) g0
        (k0\<lparr>lzo1x_1_compress_ret := (\<lambda>len cap. (- 1, 0))\<rparr>)
       = Some (sii', sbi', g', k')
      \<and> lower_file sii' = None \<and> \<not> lower_file_mutex sii'
      \<and> trace k' = [Filemap_write_and_wait, Vmalloc_workmem, Lzo1x_1_compress 5000,
                     Free_pages C_buffer, Free_pages U_buffer, Fput (Some 1)])
   \<and> (\<exists>a'. scfs_get_lower_file sii0 (k0\<lparr>privileged_open_ret := (- ENOMEM, 0)\<rparr>)
              = Some (- ENOMEM, a', emit Privileged_open (k0\<lparr>privileged_open_ret := (- ENOMEM, 0)\<rparr>))
            \<and> lower_file_count a' = 0 \<and> lower_file a' = None \<and> \<not> lower_file_mutex a')"
proof -
  let ?S = "sii0\<lparr>cinfo_list := [entry 0 0 0], i_size := 5000, lower_file := Some 1,
              lower_file_count := 1,
              cluster_buffer := (cluster_buffer sii0)\<lparr>original_size := 5000\<rparr>\<rparr>"
  let ?B = "sbi0\<lparr>total_cluster_count := 1, current_data_size := 5000\<rparr>"
  let ?K = "k0\<lparr>lzo1x_1_compress_ret := (\<lambda>len cap. (- 1, 0))\<rparr>"
  let ?S3 = "?S\<lparr>lower_file_count := 0, lower_file_mutex := True\<rparr>"
  let ?K3 = "emit Filemap_write_and_wait ?K"
  let ?KA = "k0\<lparr>privileged_open_ret := (- ENOMEM, 0)\<rparr>"
  have one: "lower_file_count ?S = 1" and free: "\<not> lower_file_mutex ?S"
    by (simp_all add: sii0_def)
  have wb: "writeback h0 ?S3 ?B ?K3 = (?S3, ?B, ?K3)" by (simp add: h0_def)
  have ext: "prefix (trace ?K3) (trace ?K3)" by simp
  obtain sii4 sbi4 g4 k4 where
    wm: "scfs_write_meta (Suc 0) h0 ?S3 ?B g0 ?K3 = Some (- EIO, sii4, sbi4, g4, k4)"
    and l4: "lower_file sii4 = Some 1"
    and t4: "trace k4 = [Filemap_write_and_wait, Vmalloc_workmem, Lzo1x_1_compress 5000,
                     Free_pages C_buffer, Free_pages U_buffer]"
    by (simp add: scfs_write_meta_def write_meta_last_cluster_def scfs_compress_def free_out_def
      buf_free_out_def sii0_def sbi0_def g0_def k0_def h0_def entry_def emit_def Let_def EIO_def)
  have ka: "lower_file_count sii0 = 0 \<and> \<not> lower_file_mutex sii0
             \<and> fst (privileged_open_ret ?KA) \<noteq> 0"
    by (simp add: sii0_def ENOMEM_def)
  from lower_file_session [OF one free wb ext wm, of sii0 ?KA] ka l4 t4
  show ?thesis
    by (simp add: emit_def)
qed

section \<open>Raw and compressed clusters on the read path\<close>

lemma lower_read_loop_no_decompress:
  "lower_read_loop fuel h buf count k pos rd rt = Some (ret, pos', k')
    \<Longrightarrow> filter is_decompress (trace k') = filter is_decompress (trace k)"
proof (induction fuel arbitrary: k pos rd rt)
  case 0
  then show ?case by simp
next
  case (Suc fuel)
  let ?k1 = "emit (Vfs_read buf rd (count - rd) pos) (k\<lparr>io_calls := Suc (io_calls k)\<rparr>)"
  have k1: "filter is_decompress (trace ?k1) = filter is_decompress (trace k)"
    by (simp add: emit_def)
  from Suc.prems have "k' = k \<or> k' = ?k1
      \<or> (\<exists>p w' r'. lower_read_loop fuel h buf count ?k1 p w' r' = Some (ret, pos', k'))"
    by (auto simp add: Let_def split: if_splits)
  then show ?case
    using k1 Suc.IH by auto
qed

lemma scfs_decompress_last:
  assumes "scfs_decompress algo len actual g k = (0, a, g', k')"
  shows "trace k' \<noteq> [] \<and> is_decompress (last (trace k'))"
  using assms
  by (cases algo)
     (auto simp add: scfs_decompress_def Let_def emit_def ENOMEM_def
        split: if_splits prod.splits)

lemma read_cluster_transfer_raw:
  assumes "read_cluster_transfer fuel h fl pidx 0 size0 pos0 sii sbi g k
             = Some (ret, c, sii', sbi', g', k')"
  shows "c = 0 \<and> filter is_decompress (trace k') = filter is_decompress (trace k)"
  using assms
  by (auto simp add: read_cluster_transfer_def Let_def scfs_lower_read_def emit_def
      split: if_splits option.splits dest!: lower_read_loop_no_decompress)

lemma read_cluster_transfer_compressed:
  assumes "compr \<noteq> 0"
    and "read_cluster_transfer fuel h fl pidx compr size0 pos0 sii sbi g k
             = Some (ret, c, sii', sbi', g', k')"
  shows "c = compr \<and> (ret = 0 \<longrightarrow> trace k' \<noteq> [] \<and> is_decompress (last (trace k')))"
proof -
  have neg: "\<And>r :: c_int. r <s 0 \<Longrightarrow> r \<noteq> 0" by (auto simp add: word_sless_alt)
  have einval: "- EINVAL \<noteq> (0 :: c_int)" by (simp add: EINVAL_def)
  show ?thesis
    using assms einval
    by (auto simp add: read_cluster_transfer_def Let_def
        split: if_splits option.splits prod.splits dest: neg scfs_decompress_last)
qed


text \<open>
  Claim C9. Take a read of a compressible file that reaches the descriptor: the file
  is not empty, the page lies inside it, the cluster index is in range, and
  \<open>get_cluster_info\<close> succeeds with the descriptor \<open>ci\<close>. \<open>left\<close> is the file size
  modulo the cluster size. A descriptor of size 0 or of a size above the cluster
  size is rejected with \<open>-EINVAL\<close>, with the kernel as \<open>get_cluster_info\<close> left it:
  nothing is read. For every other size the call is the transfer of
  \<open>read_cluster_transfer\<close> with \<open>*compressed\<close> set to 0 if the size equals the
  cluster size, or the cluster is the last one and the size equals \<open>left\<close>, and to
  1 otherwise. With 0 the call is: a read of the lower file (of the cluster into
  \<open>c_buffer\<close>, or of the page's part of it into the page) and nothing else; it
  returns the error of the read, or 0. With 1 the call is: a read of \<open>size\<close> bytes
  into \<open>c_buffer\<close>, and, unless the read fails, \<open>scfs_decompress\<close> on them, whose
  status is returned. A call whose read of the lower file does not return does not
  return.
\<close>

theorem read_cluster_descriptor_routing:
  assumes sz: "i_size sii \<noteq> 0"
    and inb: "\<not> i_size sii \<le>s ucast (page_index * PAGE_SIZE h)"
    and cs: "cluster_size sii \<noteq> 0"
    and left: "left = i_size sii mod ucast (cluster_size sii)"
    and lastc: "last_cluster_idx =
        ucast ((if left \<noteq> 0 then i_size sii div ucast (cluster_size sii) + 1
                else i_size sii div ucast (cluster_size sii)) - 1)"
    and idx: "cluster_idx = PAGE_TO_CLUSTER_INDEX h page_index sii"
    and rng: "\<not> last_cluster_idx <s cluster_idx"
    and ca: "compressable sii"
    and gci: "get_cluster_info fuel h sii sbi g k cluster_idx \<lparr>offset = 0, csize = 0\<rparr>
                = Some (0, ci, sii1, sbi1, g1, k1)"
  shows
    "(csize ci = 0 \<or> cluster_size sii1 < csize ci \<longrightarrow>
        scfs_read_cluster fuel h file_lower page_index compr sii sbi g k
          = Some (- EINVAL, compr, sii1, sbi1, g1, k1))
     \<and> (csize ci \<noteq> 0 \<and> csize ci \<le> cluster_size sii1 \<longrightarrow>
          scfs_read_cluster fuel h file_lower page_index compr sii sbi g k
            = read_cluster_transfer fuel h file_lower page_index
                (if csize ci = cluster_size sii1
                    \<or> (cluster_idx = last_cluster_idx \<and> left = ucast (csize ci))
                 then 0 else 1)
                (csize ci) (ucast (offset ci)) sii1 sbi1 g1 k1)
     \<and> (csize ci \<noteq> 0 \<and> csize ci \<le> cluster_size sii1
          \<and> (csize ci = cluster_size sii1
                 \<or> (cluster_idx = last_cluster_idx \<and> left = ucast (csize ci))) \<longrightarrow>
          scfs_read_cluster fuel h file_lower page_index compr sii sbi g k
            = (if file_lower = None then Some (- EINVAL, 0, sii1, sbi1, g1, k1)
               else
                 (let direct = SCFS_REMOVE_NO_COMPRESSED_UPPER_MEMCPY h;
                      shift = PGOFF_IN_CLUSTER h page_index sii1 * PAGE_SIZE h;
                      size1 = (if direct
                               then (if PAGE_SIZE h < csize ci - shift then PAGE_SIZE h
                                     else csize ci - shift)
                               else csize ci);
                      pos1 = (if direct then ucast (offset ci) + ucast shift
                              else ucast (offset ci));
                      buf_c = (if direct then Page_buffer else C_buffer);
                      k2 = (if direct then emit Kmap k1 else k1)
                  in case scfs_lower_read fuel h buf_c size1 k2 pos1 of
                       None \<Rightarrow> None
                     | Some (ret, pos2, k3) \<Rightarrow>
                         (let k4 = (if direct then emit Kunmap k3 else k3)
                          in if ret <s 0
                             then Some (ret, 0, sii1, sbi1, g1, emit Unlock_page k4)
                             else Some (0, 0, sii1, sbi1, g1, k4)))))
     \<and> (csize ci \<noteq> 0 \<and> csize ci \<le> cluster_size sii1
          \<and> \<not> (csize ci = cluster_size sii1
                 \<or> (cluster_idx = last_cluster_idx \<and> left = ucast (csize ci))) \<longrightarrow>
          scfs_read_cluster fuel h file_lower page_index compr sii sbi g k
            = (if file_lower = None then Some (- EINVAL, 1, sii1, sbi1, g1, k1)
               else
                 (case scfs_lower_read fuel h C_buffer (csize ci) k1 (ucast (offset ci)) of
                    None \<Rightarrow> None
                  | Some (ret, pos2, k3) \<Rightarrow>
                      if ret <s 0 then Some (ret, 1, sii1, sbi1, g1, emit Unlock_page k3)
                      else
                        (case scfs_decompress (comp_type sii1) (csize ci) (cluster_size sii1)
                                g1 k3 of
                           (ret1, actual, g2, k4) \<Rightarrow>
                             Some (ret1, 1, sii1, sbi1, g2,
                                   if ret1 \<noteq> 0
                                   then emit Unlock_page (emit Clear_page_uptodate k4)
                                   else k4)))))"
proof -
  let ?raw = "csize ci = cluster_size sii1
                 \<or> (cluster_idx = last_cluster_idx \<and> left = ucast (csize ci))"
  have rej: "csize ci = 0 \<or> cluster_size sii1 < csize ci \<Longrightarrow>
        scfs_read_cluster fuel h file_lower page_index compr sii sbi g k
          = Some (- EINVAL, compr, sii1, sbi1, g1, k1)"
    using sz inb cs rng ca gci
    unfolding left lastc idx
    by (simp add: scfs_read_cluster_def read_cluster_locate_def Let_def)
  have acc: "csize ci \<noteq> 0 \<and> csize ci \<le> cluster_size sii1 \<Longrightarrow>
        scfs_read_cluster fuel h file_lower page_index compr sii sbi g k
          = read_cluster_transfer fuel h file_lower page_index (if ?raw then 0 else 1)
              (csize ci) (ucast (offset ci)) sii1 sbi1 g1 k1"
    using sz inb cs rng ca gci
    unfolding left lastc idx
    by (auto simp add: scfs_read_cluster_def read_cluster_locate_def Let_def)
  have raw: "read_cluster_transfer fuel h file_lower page_index 0
              (csize ci) (ucast (offset ci)) sii1 sbi1 g1 k1
            = (if file_lower = None then Some (- EINVAL, 0, sii1, sbi1, g1, k1)
               else
                 (let direct = SCFS_REMOVE_NO_COMPRESSED_UPPER_MEMCPY h;
                      shift = PGOFF_IN_CLUSTER h page_index sii1 * PAGE_SIZE h;
                      size1 = (if direct
                               then (if PAGE_SIZE h < csize ci - shift then PAGE_SIZE h
                                     else csize ci - shift)
                               else csize ci);
                      pos1 = (if direct then ucast (offset ci) + ucast shift
                              else ucast (offset ci));
                      buf_c = (if direct then Page_buffer else C_buffer);
                      k2 = (if direct then emit Kmap k1 else k1)
                  in case scfs_lower_read fuel h buf_c size1 k2 pos1 of
                       None \<Rightarrow> None
                     | Some (ret, pos2, k3) \<Rightarrow>
                         (let k4 = (if direct then emit Kunmap k3 else k3)
                          in if ret <s 0
                             then Some (ret, 0, sii1, sbi1, g1, emit Unlock_page k4)
                             else Some (0, 0, sii1, sbi1, g1, k4))))"
    by (auto simp add: read_cluster_transfer_def Let_def split: option.splits)
  have cmp: "read_cluster_transfer fuel h file_lower page_index 1
              (csize ci) (ucast (offset ci)) sii1 sbi1 g1 k1
            = (if file_lower = None then Some (- EINVAL, 1, sii1, sbi1, g1, k1)
               else
                 (case scfs_lower_read fuel h C_buffer (csize ci) k1 (ucast (offset ci)) of
                    None \<Rightarrow> None
                  | Some (ret, pos2, k3) \<Rightarrow>
                      if ret <s 0 then Some (ret, 1, sii1, sbi1, g1, emit Unlock_page k3)
                      else
                        (case scfs_decompress (comp_type sii1) (csize ci) (cluster_size sii1)
                                g1 k3 of
                           (ret1, actual, g2, k4) \<Rightarrow>
                             Some (ret1, 1, sii1, sbi1, g2,
                                   if ret1 \<noteq> 0
                                   then emit Unlock_page (emit Clear_page_uptodate k4)
                                   else k4))))"
    by (auto simp add: read_cluster_transfer_def Let_def split: option.splits prod.splits)
  have acc_raw: "csize ci \<noteq> 0 \<and> csize ci \<le> cluster_size sii1 \<and> ?raw \<Longrightarrow>
        scfs_read_cluster fuel h file_lower page_index compr sii sbi g k
          = read_cluster_transfer fuel h file_lower page_index 0
              (csize ci) (ucast (offset ci)) sii1 sbi1 g1 k1"
    using acc by auto
  have acc_cmp: "csize ci \<noteq> 0 \<and> csize ci \<le> cluster_size sii1 \<and> \<not> ?raw \<Longrightarrow>
        scfs_read_cluster fuel h file_lower page_index compr sii sbi g k
          = read_cluster_transfer fuel h file_lower page_index 1
              (csize ci) (ucast (offset ci)) sii1 sbi1 g1 k1"
    using acc by auto
  show ?thesis
    by (intro conjI impI)
       (erule rej, erule acc, (drule acc_raw, erule trans, rule raw),
        (drule acc_cmp, erule trans, rule cmp))
qed

theorem read_cluster_descriptor_routing_witness:
  "scfs_read_cluster (Suc (Suc 0)) h0 (Some 1) 0 1 (committed_file 1000) sbi0 g0 k0
     = Some (0, 0, committed_file 1000, sbi0, g0,
             k0\<lparr>io_calls := 1, trace := [Vfs_read C_buffer 0 16384 0]\<rparr>)
   \<and> scfs_read_cluster (Suc (Suc 0)) h0 (Some 1) 4 1 (committed_file 3616) sbi0 g0 k0
     = Some (0, 0, committed_file 3616, sbi0, g0,
             k0\<lparr>io_calls := 1, trace := [Vfs_read C_buffer 0 3616 16384]\<rparr>)
   \<and> scfs_read_cluster (Suc (Suc 0)) h0 (Some 1) 4 0 (committed_file 1000) sbi0 g0 k0
     = Some (0, 1, committed_file 1000, sbi0, g0,
             k0\<lparr>io_calls := 1,
                trace := [Vfs_read C_buffer 0 1000 16384, Lzo1x_decompress_safe 1000]\<rparr>)
   \<and> scfs_read_cluster (Suc (Suc 0)) h0 (Some 1) 4 0 (committed_file 1000) sbi0 g0
        (k0\<lparr>lzo1x_decompress_safe_ret := (\<lambda>len cap. (- 1, 0))\<rparr>)
     = Some (- EIO, 1, committed_file 1000, sbi0, g0,
             k0\<lparr>lzo1x_decompress_safe_ret := (\<lambda>len cap. (- 1, 0)), io_calls := 1,
                trace := [Vfs_read C_buffer 0 1000 16384, Lzo1x_decompress_safe 1000,
                          Clear_page_uptodate, Unlock_page]\<rparr>)
   \<and> scfs_read_cluster (Suc (Suc 0)) h0 (Some 1) 4 0 (committed_file 0) sbi0 g0 k0
     = Some (- EINVAL, 0, committed_file 0, sbi0, g0, k0)
   \<and> scfs_read_cluster (Suc (Suc 0)) h0 (Some 1) 4 0 (committed_file 20000) sbi0 g0 k0
     = Some (- EINVAL, 0, committed_file 20000, sbi0, g0, k0)"
proof -
  have a: "i_size (committed_file sz) \<noteq> 0"
    "\<not> i_size (committed_file sz) \<le>s ucast (4 * PAGE_SIZE h0)"
    "cluster_size (committed_file sz) \<noteq> 0"
    "3616 = i_size (committed_file sz) mod ucast (cluster_size (committed_file sz))"
    "1 = ucast ((if (3616 :: loff_t) \<noteq> 0
                 then i_size (committed_file sz) div ucast (cluster_size (committed_file sz)) + 1
                 else i_size (committed_file sz) div ucast (cluster_size (committed_file sz))) - 1)"
    "1 = PAGE_TO_CLUSTER_INDEX h0 4 (committed_file sz)"
    "\<not> (1 :: c_int) <s 1"
    "compressable (committed_file sz)" for sz
    by (simp_all add: committed_file_def sii0_def h0_def word_sle_eq)
  have b: "i_size (committed_file sz) \<noteq> 0"
    "\<not> i_size (committed_file sz) \<le>s ucast (0 * PAGE_SIZE h0)"
    "cluster_size (committed_file sz) \<noteq> 0"
    "3616 = i_size (committed_file sz) mod ucast (cluster_size (committed_file sz))"
    "1 = ucast ((if (3616 :: loff_t) \<noteq> 0
                 then i_size (committed_file sz) div ucast (cluster_size (committed_file sz)) + 1
                 else i_size (committed_file sz) div ucast (cluster_size (committed_file sz))) - 1)"
    "0 = PAGE_TO_CLUSTER_INDEX h0 0 (committed_file sz)"
    "\<not> (1 :: c_int) <s 0"
    "compressable (committed_file sz)" for sz
    by (simp_all add: committed_file_def sii0_def h0_def word_sle_eq word_sless_alt)
  have gci: "get_cluster_info (Suc (Suc 0)) h0 (committed_file sz) sbi0 g0 kk 1
               \<lparr>offset = 0, csize = 0\<rparr>
             = Some (0, \<lparr>offset = 16384, csize = sz\<rparr>, committed_file sz, sbi0, g0, kk)" for sz kk
    by (simp add: get_cluster_info_def committed_file_def sii0_def h0_def word_sless_alt Let_def)
  have gci0: "get_cluster_info (Suc (Suc 0)) h0 (committed_file sz) sbi0 g0 kk 0
               \<lparr>offset = 0, csize = 0\<rparr>
             = Some (0, \<lparr>offset = 0, csize = 16384\<rparr>, committed_file sz, sbi0, g0, kk)" for sz kk
    by (simp add: get_cluster_info_def committed_file_def sii0_def h0_def word_sless_alt Let_def)
  note ev = read_cluster_transfer_def scfs_lower_read_def scfs_decompress_def committed_file_def
        sii0_def sbi0_def g0_def k0_def h0_def emit_def Let_def word_sless_alt EIO_def
  from read_cluster_descriptor_routing [OF b gci0 [of 1000 k0],
      where file_lower = "Some 1" and compr = 1]
  have p0: "scfs_read_cluster (Suc (Suc 0)) h0 (Some 1) 0 1 (committed_file 1000) sbi0 g0 k0
     = Some (0, 0, committed_file 1000, sbi0, g0,
             k0\<lparr>io_calls := 1, trace := [Vfs_read C_buffer 0 16384 0]\<rparr>)"
    by (simp add: ev)
  from read_cluster_descriptor_routing [OF a gci [of 3616 k0],
      where file_lower = "Some 1" and compr = 1]
  have p1: "scfs_read_cluster (Suc (Suc 0)) h0 (Some 1) 4 1 (committed_file 3616) sbi0 g0 k0
     = Some (0, 0, committed_file 3616, sbi0, g0,
             k0\<lparr>io_calls := 1, trace := [Vfs_read C_buffer 0 3616 16384]\<rparr>)"
    by (simp add: ev)
  from read_cluster_descriptor_routing [OF a gci [of 1000 k0],
      where file_lower = "Some 1" and compr = 0]
  have p2: "scfs_read_cluster (Suc (Suc 0)) h0 (Some 1) 4 0 (committed_file 1000) sbi0 g0 k0
     = Some (0, 1, committed_file 1000, sbi0, g0,
             k0\<lparr>io_calls := 1,
                trace := [Vfs_read C_buffer 0 1000 16384, Lzo1x_decompress_safe 1000]\<rparr>)"
    by (simp add: ev)
  from read_cluster_descriptor_routing [OF a gci [of 1000 "k0\<lparr>lzo1x_decompress_safe_ret := (\<lambda>len cap. (- 1, 0))\<rparr>"],
      where file_lower = "Some 1" and compr = 0]
  have p3: "scfs_read_cluster (Suc (Suc 0)) h0 (Some 1) 4 0 (committed_file 1000) sbi0 g0
        (k0\<lparr>lzo1x_decompress_safe_ret := (\<lambda>len cap. (- 1, 0))\<rparr>)
     = Some (- EIO, 1, committed_file 1000, sbi0, g0,
             k0\<lparr>lzo1x_decompress_safe_ret := (\<lambda>len cap. (- 1, 0)), io_calls := 1,
                trace := [Vfs_read C_buffer 0 1000 16384, Lzo1x_decompress_safe 1000,
                          Clear_page_uptodate, Unlock_page]\<rparr>)"
    by (simp add: ev)
  from read_cluster_descriptor_routing [OF a gci [of 0 k0],
      where file_lower = "Some 1" and compr = 0]
  have p4: "scfs_read_cluster (Suc (Suc 0)) h0 (Some 1) 4 0 (committed_file 0) sbi0 g0 k0
     = Some (- EINVAL, 0, committed_file 0, sbi0, g0, k0)"
    by simp
  from read_cluster_descriptor_routing [OF a gci [of 20000 k0],
      where file_lower = "Some 1" and compr = 0]
  have p5: "scfs_read_cluster (Suc (Suc 0)) h0 (Some 1) 4 0 (committed_file 20000) sbi0 g0 k0
     = Some (- EINVAL, 0, committed_file 20000, sbi0, g0, k0)"
    by (simp add: committed_file_def sii0_def)
  from p0 p1 p2 p3 p4 p5 show ?thesis by blast
qed

end
